theory Spec2Isabelle
  imports Main
begin

section \<open>Request bodies and the validation layer\<close>

text \<open>
  A request body is the value \<open>request.json()\<close> returns. Numbers are kept to the
  integers; strings are lists of code units below 256.
\<close>

datatype json =
    JNull
  | JBool bool
  | JNum int
  | JStr string
  | JArr "json list"
  | JObj "(string \<times> json) list"

text \<open>
  Property access on a parsed object: a key that occurs twice keeps its last value,
  a missing key reads as \<open>undefined\<close> (\<open>None\<close>).
\<close>

definition get_field :: "(string \<times> json) list \<Rightarrow> string \<Rightarrow> json option" where
  "get_field kvs k = map_of (rev kvs) k"

text \<open>\<open>.nullable()\<close>: the value \<open>null\<close> is accepted and kept apart from \<open>undefined\<close>.\<close>

datatype 'a nullable = Null | Value 'a

text \<open>
  What a handler can catch. Of the messages, only that of a validation error of the
  database client is read by a handler; the other texts stand for messages that name no
  unknown argument.
\<close>

datatype error =
    SyntaxError
  | ZodError
  | PrismaClientKnownRequestError string "string list"
  | PrismaClientValidationError string
  | Error string

fun message :: "error \<Rightarrow> string" where
  "message SyntaxError = ''Unexpected token in JSON''"
| "message ZodError = ''Invalid input''"
| "message (PrismaClientKnownRequestError code target) = ''Request failed with code '' @ code"
| "message (PrismaClientValidationError m) = m"
| "message (Error m) = m"

text \<open>\<open>String.prototype.trim\<close> on the code units below 256.\<close>

definition is_space :: "char \<Rightarrow> bool" where
  "is_space c = (of_char c \<in> {9, 10, 11, 12, 13, 32, 160 :: nat})"

definition trim :: "string \<Rightarrow> string" where
  "trim s = rev (dropWhile is_space (rev (dropWhile is_space s)))"

text \<open>\<open>z.string().min(n)\<close>\<close>

fun z_string_min :: "nat \<Rightarrow> json \<Rightarrow> error + string" where
  "z_string_min n (JStr s) = (if n \<le> length s then Inr s else Inl ZodError)"
| "z_string_min n _ = Inl ZodError"

text \<open>\<open>z.string().trim().min(n)\<close>: the length is checked after trimming.\<close>

fun z_string_trim_min :: "nat \<Rightarrow> json \<Rightarrow> error + string" where
  "z_string_trim_min n (JStr s) = (if n \<le> length (trim s) then Inr (trim s) else Inl ZodError)"
| "z_string_trim_min n _ = Inl ZodError"

text \<open>\<open>z.string()\<close>\<close>

fun z_string :: "json \<Rightarrow> error + string" where
  "z_string (JStr s) = Inr s"
| "z_string _ = Inl ZodError"

text \<open>\<open>.optional()\<close> and \<open>.nullable()\<close> around a validator.\<close>

definition optional :: "(json \<Rightarrow> error + 'a) \<Rightarrow> json option \<Rightarrow> error + 'a option" where
  "optional p v =
     (case v of
        None \<Rightarrow> Inr None
      | Some j \<Rightarrow> (case p j of Inl e \<Rightarrow> Inl e | Inr x \<Rightarrow> Inr (Some x)))"

definition required :: "(json \<Rightarrow> error + 'a) \<Rightarrow> json option \<Rightarrow> error + 'a" where
  "required p v = (case v of None \<Rightarrow> Inl ZodError | Some j \<Rightarrow> p j)"

definition nullable :: "(json \<Rightarrow> error + 'a) \<Rightarrow> json \<Rightarrow> error + 'a nullable" where
  "nullable p j =
     (if j = JNull then Inr Null
      else (case p j of Inl e \<Rightarrow> Inl e | Inr x \<Rightarrow> Inr (Value x)))"

text \<open>Sequencing of steps that may throw.\<close>

definition bind :: "error + 'a \<Rightarrow> ('a \<Rightarrow> error + 'b) \<Rightarrow> error + 'b" where
  "bind m f = (case m of Inl e \<Rightarrow> Inl e | Inr x \<Rightarrow> f x)"

text \<open>The truthiness of an optional string: \<open>undefined\<close> and \<open>''''\<close> are falsy.\<close>

definition truthy :: "string option \<Rightarrow> bool" where
  "truthy v = (case v of None \<Rightarrow> False | Some s \<Rightarrow> s \<noteq> [])"

section \<open>Responses\<close>

datatype 'a body = ErrorJson string | Json 'a

record 'a response =
  status :: nat
  body :: "'a body"

definition json_response :: "nat \<Rightarrow> 'a body \<Rightarrow> 'a response" where
  "json_response st b = \<lparr>status = st, body = b\<rparr>"

section \<open>The persistence layer\<close>

datatype appointment_status = BOOKED | COMPLETED | CANCELLED | NO_SHOW

datatype role = ADMIN | STAFF

record patient =
  p_id :: string
  p_firstName :: string
  p_lastName :: string
  p_phone :: "string option"
  p_email :: "string option"
  p_dob :: "int option"
  p_notes :: "string option"

text \<open>
  The Service table over both revisions of the services route: \<open>durationMin\<close> and
  \<open>priceCents\<close> are written by the earlier one only, \<open>priority\<close> by the later one only;
  a column a create does not write is kept as \<open>None\<close>.
\<close>

record service =
  s_id :: string
  s_name :: string
  s_description :: string
  s_shortDescription :: "string option"
  s_priority :: "int option"
  s_durationMin :: "int option"
  s_priceCents :: "int option"
  s_active :: bool
  s_parentId :: "string option"
  s_images :: "string list"

record user =
  u_id :: string
  u_email :: string
  u_name :: "string option"
  u_role :: role
  u_passwordHash :: string

record appointment =
  a_id :: string
  a_patientId :: "string option"
  a_customPatientName :: "string option"
  a_serviceId :: string
  a_staffId :: "string option"
  a_date :: int
  a_status :: appointment_status
  a_notes :: "string option"

text \<open>
  A PatientServiceUsage row. Its primary key is a generated identifier that no handler
  reads; it is left out, and generated keys are taken to be fresh.
\<close>

record usage =
  pu_patientId :: string
  pu_serviceId :: string
  pu_usedAt :: int

record db =
  patients :: "patient list"
  services :: "service list"
  users :: "user list"
  appointments :: "appointment list"
  usages :: "usage list"

section \<open>Appointments: \<open>POST /api/appointments\<close>\<close>

definition STATUS_ENUM :: "(string \<times> appointment_status) list" where
  "STATUS_ENUM =
     [(''BOOKED'', BOOKED), (''COMPLETED'', COMPLETED),
      (''CANCELLED'', CANCELLED), (''NO_SHOW'', NO_SHOW)]"

text \<open>\<open>z.enum(STATUS_ENUM)\<close>\<close>

fun z_status :: "json \<Rightarrow> error + appointment_status" where
  "z_status (JStr s) = (case map_of STATUS_ENUM s of None \<Rightarrow> Inl ZodError | Some st \<Rightarrow> Inr st)"
| "z_status _ = Inl ZodError"

text \<open>
  What the handlers take from the JavaScript runtime and its libraries, as parameters:
  \<open>new Date(v)\<close> (the time value, \<open>None\<close> for an invalid date), \<open>Number(v)\<close>
  where it is an integer (\<open>None\<close> for \<open>NaN\<close> and for a fraction), the patterns behind
  \<open>.email()\<close> and \<open>.cuid()\<close>, and \<open>bcrypt.hash(password, 10)\<close>.
\<close>

record jslib =
  newDate :: "json option \<Rightarrow> int option"
  toInteger :: "json \<Rightarrow> int option"
  isEmail :: "string \<Rightarrow> bool"
  isCuid :: "string \<Rightarrow> bool"
  bcryptHash :: "string \<Rightarrow> string"

text \<open>\<open>z.coerce.date()\<close>: the field goes through \<open>new Date(...)\<close>; an invalid date is an issue.\<close>

definition z_coerce_date :: "jslib \<Rightarrow> json option \<Rightarrow> error + int" where
  "z_coerce_date L v = (case newDate L v of None \<Rightarrow> Inl ZodError | Some t \<Rightarrow> Inr t)"

record create_payload =
  cp_patientId :: "string option"
  cp_patientName :: "string option"
  cp_serviceId :: string
  cp_staffId :: "string option"
  cp_date :: int
  cp_status :: "appointment_status option"
  cp_notes :: "string nullable option"

text \<open>\<open>createSchema.parse\<close>: the object schema, then the refinement on the parsed value.\<close>

definition createSchema :: "jslib \<Rightarrow> json \<Rightarrow> error + create_payload" where
  "createSchema L j =
     (case j of
        JObj kvs \<Rightarrow>
          bind (optional (z_string_min 1) (get_field kvs ''patientId'')) (\<lambda>patientId.
          bind (optional (z_string_trim_min 1) (get_field kvs ''patientName'')) (\<lambda>patientName.
          bind (required (z_string_min 1) (get_field kvs ''serviceId'')) (\<lambda>serviceId.
          bind (optional (z_string_min 1) (get_field kvs ''staffId'')) (\<lambda>staffId.
          bind (z_coerce_date L (get_field kvs ''date'')) (\<lambda>date.
          bind (optional z_status (get_field kvs ''status'')) (\<lambda>st.
          bind (optional (nullable z_string) (get_field kvs ''notes'')) (\<lambda>notes.
            if truthy patientId \<or> truthy patientName
            then Inr \<lparr>cp_patientId = patientId, cp_patientName = patientName,
                      cp_serviceId = serviceId, cp_staffId = staffId, cp_date = date,
                      cp_status = st, cp_notes = notes\<rparr>
            else Inl ZodError)))))))
      | _ \<Rightarrow> Inl ZodError)"

text \<open>\<open>name?.trim() || undefined\<close>\<close>

definition sanitizePatientName :: "string option \<Rightarrow> string option" where
  "sanitizePatientName name =
     (case name of None \<Rightarrow> None | Some s \<Rightarrow> (if trim s = [] then None else Some (trim s)))"

record appointment_create_input =
  ci_patientId :: "string option"
  ci_customPatientName :: "string option"
  ci_serviceId :: string
  ci_staffId :: "string option"
  ci_date :: int
  ci_status :: appointment_status
  ci_notes :: "string option"

text \<open>
  Modelled from the spec: the Appointment table (its schema is not under src/). An
  appointment references a Service (required) and optionally a Patient and a staff User;
  a field left \<open>undefined\<close> is stored as NULL; the primary key is the generated \<open>newId\<close>.
  A reference to a row that does not exist is a foreign-key error (P2003), a primary key
  already in use a unique-constraint error (P2002).
\<close>

definition ref_ok :: "string list \<Rightarrow> string option \<Rightarrow> bool" where
  "ref_ok ids r = (case r of None \<Rightarrow> True | Some i \<Rightarrow> i \<in> set ids)"

definition appointment_create ::
  "string \<Rightarrow> appointment_create_input \<Rightarrow> db \<Rightarrow> error + (appointment \<times> db)" where
  "appointment_create newId d s =
     (if newId \<in> set (map a_id (appointments s))
        then Inl (PrismaClientKnownRequestError ''P2002'' [''id''])
      else if \<not> ref_ok (map p_id (patients s)) (ci_patientId d)
        then Inl (PrismaClientKnownRequestError ''P2003'' [''Appointment_patientId_fkey''])
      else if ci_serviceId d \<notin> set (map s_id (services s))
        then Inl (PrismaClientKnownRequestError ''P2003'' [''Appointment_serviceId_fkey''])
      else if \<not> ref_ok (map u_id (users s)) (ci_staffId d)
        then Inl (PrismaClientKnownRequestError ''P2003'' [''Appointment_staffId_fkey''])
      else
        (let row = \<lparr>a_id = newId, a_patientId = ci_patientId d,
                    a_customPatientName = ci_customPatientName d,
                    a_serviceId = ci_serviceId d, a_staffId = ci_staffId d,
                    a_date = ci_date d, a_status = ci_status d, a_notes = ci_notes d\<rparr>
         in Inr (row, s\<lparr>appointments := appointments s @ [row]\<rparr>)))"

text \<open>\<open>request.json()\<close>: a body that is not JSON (\<open>None\<close>) throws.\<close>

definition request_json :: "json option \<Rightarrow> error + json" where
  "request_json b = (case b of None \<Rightarrow> Inl SyntaxError | Some j \<Rightarrow> Inr j)"

definition notes_or_undefined :: "string nullable option \<Rightarrow> string option" where
  "notes_or_undefined n = (case n of Some (Value s) \<Rightarrow> Some s | _ \<Rightarrow> None)"

definition status_or_booked :: "appointment_status option \<Rightarrow> appointment_status" where
  "status_or_booked st = (case st of None \<Rightarrow> BOOKED | Some x \<Rightarrow> x)"

text \<open>The \<open>POST\<close> handler of \<open>src/app/api/appointments/route.ts\<close>.\<close>

definition appointments_POST ::
  "jslib \<Rightarrow> string \<Rightarrow> json option \<Rightarrow> db \<Rightarrow> appointment response \<times> db" where
  "appointments_POST L newId req s =
     (case bind (bind (request_json req) (createSchema L)) (\<lambda>payload.
             let patientName = sanitizePatientName (cp_patientName payload) in
             appointment_create newId
               \<lparr>ci_patientId = cp_patientId payload,
                ci_customPatientName =
                  (if truthy (cp_patientId payload) then None else patientName),
                ci_serviceId = cp_serviceId payload,
                ci_staffId = cp_staffId payload,
                ci_date = cp_date payload,
                ci_status = status_or_booked (cp_status payload),
                ci_notes = notes_or_undefined (cp_notes payload)\<rparr> s) of
        Inr (row, s') \<Rightarrow> (json_response 201 (Json row), s')
      | Inl e \<Rightarrow> (json_response 400 (ErrorJson ''Unable to create appointment''), s))"

section \<open>Appointments: the public booking endpoint\<close>

record booking_payload =
  bp_patientId :: "string option"
  bp_patientName :: "string option"
  bp_serviceId :: string
  bp_date :: int
  bp_notes :: "string option"

text \<open>\<open>bookingSchema.parse\<close>: an object schema reads its own keys and drops every other key.\<close>

definition bookingSchema :: "jslib \<Rightarrow> json \<Rightarrow> error + booking_payload" where
  "bookingSchema L j =
     (case j of
        JObj kvs \<Rightarrow>
          bind (optional (z_string_min 1) (get_field kvs ''patientId'')) (\<lambda>patientId.
          bind (optional (z_string_trim_min 1) (get_field kvs ''patientName'')) (\<lambda>patientName.
          bind (required (z_string_min 1) (get_field kvs ''serviceId'')) (\<lambda>serviceId.
          bind (z_coerce_date L (get_field kvs ''date'')) (\<lambda>date.
          bind (optional (z_string_trim_min 0) (get_field kvs ''notes'')) (\<lambda>notes.
            if truthy patientId \<or> truthy patientName
            then Inr \<lparr>bp_patientId = patientId, bp_patientName = patientName,
                      bp_serviceId = serviceId, bp_date = date, bp_notes = notes\<rparr>
            else Inl ZodError)))))
      | _ \<Rightarrow> Inl ZodError)"

text \<open>\<open>value?.trim() || undefined\<close>\<close>

definition sanitize :: "string option \<Rightarrow> string option" where
  "sanitize v =
     (case v of None \<Rightarrow> None | Some s \<Rightarrow> (if trim s = [] then None else Some (trim s)))"

definition STATUS_DEFAULT :: appointment_status where
  "STATUS_DEFAULT = BOOKED"

text \<open>The \<open>select\<close> of the public endpoint: the fields of the created row it returns.\<close>

record booking_view =
  bv_id :: string
  bv_date :: int
  bv_status :: appointment_status
  bv_customPatientName :: "string option"
  bv_notes :: "string option"
  bv_patient :: "string option"
  bv_service :: string

definition booking_select :: "appointment \<Rightarrow> booking_view" where
  "booking_select row =
     \<lparr>bv_id = a_id row, bv_date = a_date row, bv_status = a_status row,
      bv_customPatientName = a_customPatientName row, bv_notes = a_notes row,
      bv_patient = a_patientId row, bv_service = a_serviceId row\<rparr>"

text \<open>The \<open>POST\<close> handler of the public booking route (src/unnamed/part_006).\<close>

definition public_appointments_POST ::
  "jslib \<Rightarrow> string \<Rightarrow> json option \<Rightarrow> db \<Rightarrow> booking_view response \<times> db" where
  "public_appointments_POST L newId req s =
     (case bind (bind (request_json req) (bookingSchema L)) (\<lambda>payload.
             let customName = sanitize (bp_patientName payload) in
             appointment_create newId
               \<lparr>ci_patientId = bp_patientId payload,
                ci_customPatientName =
                  (if truthy (bp_patientId payload) then None else customName),
                ci_serviceId = bp_serviceId payload,
                ci_staffId = None,
                ci_date = bp_date payload,
                ci_status = STATUS_DEFAULT,
                ci_notes = sanitize (bp_notes payload)\<rparr> s) of
        Inr (row, s') \<Rightarrow> (json_response 201 (Json (booking_select row)), s')
      | Inl e \<Rightarrow> (json_response 400 (ErrorJson ''Unable to create appointment request.''), s))"

section \<open>Appointments: \<open>PATCH /api/appointments/[id]\<close>\<close>

record update_payload =
  up_patientId :: "string nullable option"
  up_patientName :: "string nullable option"
  up_serviceId :: "string option"
  up_staffId :: "string nullable option"
  up_date :: "int option"
  up_status :: "appointment_status option"
  up_notes :: "string nullable option"

text \<open>\<open>z.coerce.date().optional()\<close>: only a missing key skips the coercion.\<close>

definition z_coerce_date_optional :: "jslib \<Rightarrow> json option \<Rightarrow> error + int option" where
  "z_coerce_date_optional L v =
     (case v of
        None \<Rightarrow> Inr None
      | Some j \<Rightarrow> (case z_coerce_date L (Some j) of Inl e \<Rightarrow> Inl e | Inr t \<Rightarrow> Inr (Some t)))"

definition updateSchema :: "jslib \<Rightarrow> json \<Rightarrow> error + update_payload" where
  "updateSchema L j =
     (case j of
        JObj kvs \<Rightarrow>
          bind (optional (nullable (z_string_min 1)) (get_field kvs ''patientId'')) (\<lambda>patientId.
          bind (optional (nullable (z_string_trim_min 1)) (get_field kvs ''patientName'')) (\<lambda>patientName.
          bind (optional (z_string_min 1) (get_field kvs ''serviceId'')) (\<lambda>serviceId.
          bind (optional (nullable (z_string_min 1)) (get_field kvs ''staffId'')) (\<lambda>staffId.
          bind (z_coerce_date_optional L (get_field kvs ''date'')) (\<lambda>date.
          bind (optional z_status (get_field kvs ''status'')) (\<lambda>st.
          bind (optional (nullable z_string) (get_field kvs ''notes'')) (\<lambda>notes.
            Inr \<lparr>up_patientId = patientId, up_patientName = patientName,
                 up_serviceId = serviceId, up_staffId = staffId, up_date = date,
                 up_status = st, up_notes = notes\<rparr>)))))))
      | _ \<Rightarrow> Inl ZodError)"

text \<open>
  The data of an update: a field left \<open>undefined\<close> (\<open>None\<close>) keeps the stored value,
  \<open>null\<close> stores NULL, a value replaces it.
\<close>

record appointment_update_input =
  ui_patientId :: "string nullable option"
  ui_customPatientName :: "string nullable option"
  ui_serviceId :: "string option"
  ui_staffId :: "string nullable option"
  ui_date :: "int option"
  ui_status :: "appointment_status option"
  ui_notes :: "string nullable option"

definition set_nullable :: "'a nullable option \<Rightarrow> 'a option \<Rightarrow> 'a option" where
  "set_nullable u old =
     (case u of None \<Rightarrow> old | Some Null \<Rightarrow> None | Some (Value v) \<Rightarrow> Some v)"

definition set_value :: "'a option \<Rightarrow> 'a \<Rightarrow> 'a" where
  "set_value u old = (case u of None \<Rightarrow> old | Some v \<Rightarrow> v)"

definition appointment_apply :: "appointment_update_input \<Rightarrow> appointment \<Rightarrow> appointment" where
  "appointment_apply d row =
     row\<lparr>a_patientId := set_nullable (ui_patientId d) (a_patientId row),
         a_customPatientName := set_nullable (ui_customPatientName d) (a_customPatientName row),
         a_serviceId := set_value (ui_serviceId d) (a_serviceId row),
         a_staffId := set_nullable (ui_staffId d) (a_staffId row),
         a_date := set_value (ui_date d) (a_date row),
         a_status := set_value (ui_status d) (a_status row),
         a_notes := set_nullable (ui_notes d) (a_notes row)\<rparr>"

text \<open>
  Modelled from the spec: \<open>update\<close> on the Appointment table (its schema is not under
  src/). A missing row is the error P2025, a reference to a row that does not exist the
  foreign-key error P2003.
\<close>

definition appointment_update ::
  "string \<Rightarrow> appointment_update_input \<Rightarrow> db \<Rightarrow> error + (appointment \<times> db)" where
  "appointment_update i d s =
     (case find (\<lambda>r. a_id r = i) (appointments s) of
        None \<Rightarrow> Inl (PrismaClientKnownRequestError ''P2025'' [])
      | Some old \<Rightarrow>
          (let row = appointment_apply d old in
           if \<not> ref_ok (map p_id (patients s)) (a_patientId row)
             then Inl (PrismaClientKnownRequestError ''P2003'' [''Appointment_patientId_fkey''])
           else if a_serviceId row \<notin> set (map s_id (services s))
             then Inl (PrismaClientKnownRequestError ''P2003'' [''Appointment_serviceId_fkey''])
           else if \<not> ref_ok (map u_id (users s)) (a_staffId row)
             then Inl (PrismaClientKnownRequestError ''P2003'' [''Appointment_staffId_fkey''])
           else Inr (row, s\<lparr>appointments :=
                  map (\<lambda>r. if a_id r = i then row else r) (appointments s)\<rparr>)))"

text \<open>\<open>patientId !== undefined && patientId\<close>\<close>

definition truthy_nullable :: "string nullable option \<Rightarrow> bool" where
  "truthy_nullable v = (case v of Some (Value s) \<Rightarrow> s \<noteq> [] | _ \<Rightarrow> False)"

text \<open>\<open>sanitizePatientName\<close> of the update route, which also takes \<open>null\<close>.\<close>

definition sanitizePatientName_nullable :: "string nullable \<Rightarrow> string option" where
  "sanitizePatientName_nullable name =
     (case name of Null \<Rightarrow> None | Value s \<Rightarrow> (if trim s = [] then None else Some (trim s)))"

text \<open>The \<open>customPatientName\<close> entry of the update data.\<close>

definition update_customPatientName ::
  "string nullable option \<Rightarrow> string nullable option \<Rightarrow> string nullable option" where
  "update_customPatientName patientId patientName =
     (if truthy_nullable patientId then Some Null
      else (case patientName of
              None \<Rightarrow> None
            | Some n \<Rightarrow>
                Some (case sanitizePatientName_nullable n of None \<Rightarrow> Null | Some t \<Rightarrow> Value t)))"

text \<open>The \<open>PATCH\<close> handler of the appointment route (src/unnamed/part_007).\<close>

definition appointments_PATCH ::
  "jslib \<Rightarrow> string \<Rightarrow> json option \<Rightarrow> db \<Rightarrow> appointment response \<times> db" where
  "appointments_PATCH L i req s =
     (case bind (bind (request_json req) (updateSchema L)) (\<lambda>payload.
             appointment_update i
               \<lparr>ui_patientId = up_patientId payload,
                ui_customPatientName =
                  update_customPatientName (up_patientId payload) (up_patientName payload),
                ui_serviceId = up_serviceId payload,
                ui_staffId = up_staffId payload,
                ui_date = up_date payload,
                ui_status = up_status payload,
                ui_notes = up_notes payload\<rparr> s) of
        Inr (row, s') \<Rightarrow> (json_response 200 (Json row), s')
      | Inl e \<Rightarrow> (json_response 400 (ErrorJson ''Unable to update appointment''), s))"

section \<open>Appointments: \<open>GET /api/appointments\<close>\<close>

text \<open>The query string: \<open>searchParams.get\<close> gives \<open>null\<close> (\<open>None\<close>) for a missing parameter.\<close>

record search_params =
  sp_status :: "string option"
  sp_from :: "string option"
  sp_to :: "string option"
  sp_patientId :: "string option"

text \<open>\<open>param ? new Date(param) : undefined\<close>; the outer option is the invalid date.\<close>

definition date_param :: "jslib \<Rightarrow> string option \<Rightarrow> int option option" where
  "date_param L v =
     (case v of
        None \<Rightarrow> Some None
      | Some p \<Rightarrow>
          (if p = [] then Some None
           else (case newDate L (Some (JStr p)) of None \<Rightarrow> None | Some t \<Rightarrow> Some (Some t))))"

text \<open>\<open>statusParam && STATUS_ENUM.includes(statusParam) ? statusParam : undefined\<close>\<close>

definition status_param :: "string option \<Rightarrow> appointment_status option" where
  "status_param v =
     (case v of None \<Rightarrow> None | Some p \<Rightarrow> (if p = [] then None else map_of STATUS_ENUM p))"

record appointment_where =
  w_status :: "appointment_status option"
  w_patientId :: "string option"
  w_gte :: "int option"
  w_lte :: "int option"

text \<open>A filter left \<open>undefined\<close> matches every row.\<close>

definition matches :: "appointment_where \<Rightarrow> appointment \<Rightarrow> bool" where
  "matches w row =
     ((case w_status w of None \<Rightarrow> True | Some st \<Rightarrow> a_status row = st) \<and>
      (case w_patientId w of None \<Rightarrow> True | Some p \<Rightarrow> a_patientId row = Some p) \<and>
      (case w_gte w of None \<Rightarrow> True | Some t \<Rightarrow> t \<le> a_date row) \<and>
      (case w_lte w of None \<Rightarrow> True | Some t \<Rightarrow> a_date row \<le> t))"

text \<open>\<open>findMany\<close> with \<open>orderBy: { date: 'desc' }\<close>; rows of one date keep their stored order.\<close>

definition appointment_findMany :: "appointment_where \<Rightarrow> db \<Rightarrow> appointment list" where
  "appointment_findMany w s = sort_key (\<lambda>r. - a_date r) (filter (matches w) (appointments s))"

text \<open>
  The \<open>GET\<close> handler of \<open>src/app/api/appointments/route.ts\<close>. An invalid date object
  in the filter is refused by the client, which the handler answers with 500.
\<close>

definition appointments_GET :: "jslib \<Rightarrow> search_params \<Rightarrow> db \<Rightarrow> appointment list response" where
  "appointments_GET L q s =
     (case (date_param L (sp_from q), date_param L (sp_to q)) of
        (Some from, Some to) \<Rightarrow>
          json_response 200 (Json (appointment_findMany
            \<lparr>w_status = status_param (sp_status q),
             w_patientId = (if truthy (sp_patientId q) then sp_patientId q else None),
             w_gte = from, w_lte = to\<rparr> s))
      | _ \<Rightarrow> json_response 500 (ErrorJson ''Unable to list appointments''))"

section \<open>Patients: \<open>PUT /api/patients/[id]\<close>\<close>

text \<open>\<open>z.string().email()\<close>\<close>

fun z_email :: "jslib \<Rightarrow> json \<Rightarrow> error + string" where
  "z_email L (JStr t) = (if isEmail L t then Inr t else Inl ZodError)"
| "z_email L _ = Inl ZodError"

text \<open>All results of the element validators, or the first error.\<close>

fun collect :: "(error + 'a) list \<Rightarrow> error + 'a list" where
  "collect [] = Inr []"
| "collect (Inl e # rs) = Inl e"
| "collect (Inr x # rs) = (case collect rs of Inl e \<Rightarrow> Inl e | Inr xs \<Rightarrow> Inr (x # xs))"

text \<open>\<open>z.array(p)\<close>\<close>

fun z_array :: "(json \<Rightarrow> error + 'a) \<Rightarrow> json \<Rightarrow> error + 'a list" where
  "z_array p (JArr js) = collect (map p js)"
| "z_array p _ = Inl ZodError"

record patient_update_payload =
  pup_firstName :: "string option"
  pup_lastName :: "string option"
  pup_phone :: "string nullable option"
  pup_email :: "string nullable option"
  pup_dob :: "int nullable option"
  pup_notes :: "string nullable option"
  pup_serviceIds :: "string list option"

text \<open>\<open>updateSchema.parse\<close> of the patient route (src/unnamed/part_009).\<close>

definition patient_updateSchema :: "jslib \<Rightarrow> json \<Rightarrow> error + patient_update_payload" where
  "patient_updateSchema L j =
     (case j of
        JObj kvs \<Rightarrow>
          bind (optional (z_string_min 1) (get_field kvs ''firstName'')) (\<lambda>firstName.
          bind (optional (z_string_min 1) (get_field kvs ''lastName'')) (\<lambda>lastName.
          bind (optional (nullable (z_string_min 5)) (get_field kvs ''phone'')) (\<lambda>phone.
          bind (optional (nullable (z_email L)) (get_field kvs ''email'')) (\<lambda>email.
          bind (optional (nullable (\<lambda>v. z_coerce_date L (Some v))) (get_field kvs ''dob'')) (\<lambda>dob.
          bind (optional (nullable z_string) (get_field kvs ''notes'')) (\<lambda>notes.
          bind (optional (z_array (z_string_min 1)) (get_field kvs ''serviceIds'')) (\<lambda>serviceIds.
            Inr \<lparr>pup_firstName = firstName, pup_lastName = lastName, pup_phone = phone,
                 pup_email = email, pup_dob = dob, pup_notes = notes,
                 pup_serviceIds = serviceIds\<rparr>)))))))
      | _ \<Rightarrow> Inl ZodError)"

definition uniqueFieldMessage :: "(string \<times> string) list" where
  "uniqueFieldMessage =
     [(''email'', ''Email already in use.''), (''phone'', ''Phone number already in use.'')]"

text \<open>The loop of \<open>handleKnownError\<close> over the violating fields.\<close>

fun first_message :: "string list \<Rightarrow> string option" where
  "first_message [] = None"
| "first_message (field # more_fields) =
     (case map_of uniqueFieldMessage field of
        Some m \<Rightarrow> Some m
      | None \<Rightarrow> first_message more_fields)"

text \<open>
  \<open>handleKnownError\<close>: a unique-constraint error (code P2002) becomes a 409 response,
  any other error \<open>null\<close>.
\<close>

definition handleKnownError :: "error \<Rightarrow> 'a response option" where
  "handleKnownError e =
     (case e of
        PrismaClientKnownRequestError code target \<Rightarrow>
          (if code = ''P2002'' then
             (case first_message target of
                Some m \<Rightarrow> Some (json_response 409 (ErrorJson m))
              | None \<Rightarrow> Some (json_response 409 (ErrorJson ''Duplicate value detected.'')))
           else None)
      | _ \<Rightarrow> None)"

record patient_update_input =
  pui_firstName :: "string option"
  pui_lastName :: "string option"
  pui_phone :: "string nullable option"
  pui_email :: "string nullable option"
  pui_dob :: "int nullable option"
  pui_notes :: "string nullable option"

definition patient_apply :: "patient_update_input \<Rightarrow> patient \<Rightarrow> patient" where
  "patient_apply d row =
     row\<lparr>p_firstName := set_value (pui_firstName d) (p_firstName row),
         p_lastName := set_value (pui_lastName d) (p_lastName row),
         p_phone := set_nullable (pui_phone d) (p_phone row),
         p_email := set_nullable (pui_email d) (p_email row),
         p_dob := set_nullable (pui_dob d) (p_dob row),
         p_notes := set_nullable (pui_notes d) (p_notes row)\<rparr>"

text \<open>
  Modelled from the spec: \<open>update\<close> on the Patient table (its schema is not under src/):
  phone and email are unique when present. A missing row is the error P2025, a second
  patient with the same email or phone the unique-constraint error P2002 on that field.
\<close>

definition taken :: "(patient \<Rightarrow> string option) \<Rightarrow> string \<Rightarrow> string option \<Rightarrow> patient list \<Rightarrow> bool" where
  "taken field i v rows =
     (case v of
        None \<Rightarrow> False
      | Some x \<Rightarrow> list_ex (\<lambda>r. p_id r \<noteq> i \<and> field r = Some x) rows)"

definition patient_update ::
  "string \<Rightarrow> patient_update_input \<Rightarrow> db \<Rightarrow> error + (patient \<times> db)" where
  "patient_update i d s =
     (case find (\<lambda>r. p_id r = i) (patients s) of
        None \<Rightarrow> Inl (PrismaClientKnownRequestError ''P2025'' [])
      | Some old \<Rightarrow>
          (let row = patient_apply d old in
           if taken p_email i (p_email row) (patients s)
             then Inl (PrismaClientKnownRequestError ''P2002'' [''email''])
           else if taken p_phone i (p_phone row) (patients s)
             then Inl (PrismaClientKnownRequestError ''P2002'' [''phone''])
           else Inr (row, s\<lparr>patients :=
                  map (\<lambda>r. if p_id r = i then row else r) (patients s)\<rparr>)))"

text \<open>\<open>new Set(xs)\<close> read back as an array: the first occurrence of each element, in order.\<close>

definition js_Set :: "'a list \<Rightarrow> 'a list" where
  "js_Set xs = rev (remdups (rev xs))"

text \<open>\<open>patientServiceUsage.findMany({ where: { patientId } })\<close>\<close>

definition usage_findMany :: "string \<Rightarrow> db \<Rightarrow> usage list" where
  "usage_findMany i s = filter (\<lambda>u. pu_patientId u = i) (usages s)"

text \<open>\<open>patientServiceUsage.deleteMany({ where: { patientId, serviceId: { in: ids } } })\<close>\<close>

definition usage_deleteMany :: "string \<Rightarrow> string list \<Rightarrow> db \<Rightarrow> db" where
  "usage_deleteMany i ids s =
     s\<lparr>usages := filter (\<lambda>u. \<not> (pu_patientId u = i \<and> pu_serviceId u \<in> set ids)) (usages s)\<rparr>"

text \<open>
  The rows of a \<open>createMany\<close> with \<open>skipDuplicates\<close>: a row whose pair
  (patientId, serviceId) is already stored is skipped; \<open>usedAt\<close> defaults to the
  current time \<open>now\<close>.
\<close>

fun insert_usages :: "int \<Rightarrow> (string \<times> string) list \<Rightarrow> usage list \<Rightarrow> usage list" where
  "insert_usages now [] us = us"
| "insert_usages now ((p, sv) # ds) us =
     insert_usages now ds
       (if list_ex (\<lambda>u. pu_patientId u = p \<and> pu_serviceId u = sv) us then us
        else us @ [\<lparr>pu_patientId = p, pu_serviceId = sv, pu_usedAt = now\<rparr>])"

text \<open>
  \<open>patientServiceUsage.createMany\<close>: one statement; a row that references a patient or a
  service that does not exist fails all of it with the foreign-key error P2003.
\<close>

definition usage_createMany :: "int \<Rightarrow> (string \<times> string) list \<Rightarrow> db \<Rightarrow> error + db" where
  "usage_createMany now ds s =
     (if list_ex (\<lambda>(p, sv). p \<notin> set (map p_id (patients s))) ds
        then Inl (PrismaClientKnownRequestError ''P2003'' [''PatientServiceUsage_patientId_fkey''])
      else if list_ex (\<lambda>(p, sv). sv \<notin> set (map s_id (services s))) ds
        then Inl (PrismaClientKnownRequestError ''P2003'' [''PatientServiceUsage_serviceId_fkey''])
      else Inr (s\<lparr>usages := insert_usages now ds (usages s)\<rparr>))"

text \<open>
  \<open>findUniqueOrThrow\<close> with \<open>patientInclude\<close>: the patient and its usage rows, latest
  first.
\<close>

definition patient_findUniqueOrThrow :: "string \<Rightarrow> db \<Rightarrow> error + (patient \<times> usage list)" where
  "patient_findUniqueOrThrow i s =
     (case find (\<lambda>r. p_id r = i) (patients s) of
        None \<Rightarrow> Inl (PrismaClientKnownRequestError ''P2025'' [])
      | Some row \<Rightarrow> Inr (row, sort_key (\<lambda>u. - pu_usedAt u) (usage_findMany i s)))"

text \<open>
  The database as a request sees it: the committed rows and, while an interactive
  transaction is open, the rows as that transaction has them.
\<close>

record world =
  committed :: db
  open_tx :: "db option"

text \<open>
  The two clients a statement can be issued on: \<open>prisma\<close>, whose statements take effect
  on the committed rows at once, and the \<open>tx\<close> that \<open>$transaction\<close> hands to its
  callback.
\<close>

datatype prisma_client = Prisma | Tx

text \<open>
  One statement on a client. A statement either fails and changes nothing or succeeds
  with the rows after it. On \<open>tx\<close> it works on the rows of the open transaction and
  leaves the committed rows alone.
\<close>

definition execute ::
  "prisma_client \<Rightarrow> (db \<Rightarrow> error + ('a \<times> db)) \<Rightarrow> world \<Rightarrow> (error + 'a) \<times> world" where
  "execute c statement w =
     (case c of
        Prisma \<Rightarrow>
          (case statement (committed w) of
             Inl e \<Rightarrow> (Inl e, w)
           | Inr (v, s') \<Rightarrow> (Inr v, w\<lparr>committed := s'\<rparr>))
      | Tx \<Rightarrow>
          (case open_tx w of
             None \<Rightarrow> (Inl (Error ''Transaction already closed''), w)
           | Some t \<Rightarrow>
               (case statement t of
                  Inl e \<Rightarrow> (Inl e, w)
                | Inr (v, t') \<Rightarrow> (Inr v, w\<lparr>open_tx := Some t'\<rparr>))))"

text \<open>
  \<open>await\<close> in sequence: when a statement throws, the rest is not run, and what the
  statements before it wrote stays written on their client.
\<close>

definition and_then ::
  "(world \<Rightarrow> (error + 'a) \<times> world) \<Rightarrow> ('a \<Rightarrow> world \<Rightarrow> (error + 'b) \<times> world) \<Rightarrow>
   world \<Rightarrow> (error + 'b) \<times> world" where
  "and_then m f w =
     (case m w of
        (Inl e, w1) \<Rightarrow> (Inl e, w1)
      | (Inr x, w1) \<Rightarrow> f x w1)"

definition skip :: "world \<Rightarrow> (error + unit) \<times> world" where
  "skip w = (Inr (), w)"

text \<open>The calls of the callback as statements: reads, writes, and those that can throw.\<close>

definition query :: "(db \<Rightarrow> 'a) \<Rightarrow> db \<Rightarrow> error + ('a \<times> db)" where
  "query f s = Inr (f s, s)"

definition query_or_throw :: "(db \<Rightarrow> error + 'a) \<Rightarrow> db \<Rightarrow> error + ('a \<times> db)" where
  "query_or_throw f s = (case f s of Inl e \<Rightarrow> Inl e | Inr v \<Rightarrow> Inr (v, s))"

definition command :: "(db \<Rightarrow> db) \<Rightarrow> db \<Rightarrow> error + (unit \<times> db)" where
  "command f s = Inr ((), f s)"

definition command_or_throw :: "(db \<Rightarrow> error + db) \<Rightarrow> db \<Rightarrow> error + (unit \<times> db)" where
  "command_or_throw f s = (case f s of Inl e \<Rightarrow> Inl e | Inr s' \<Rightarrow> Inr ((), s'))"

text \<open>
  The block under \<open>if (serviceIds)\<close>: the reconciliation of the usage rows, every
  statement on the client \<open>tx\<close> of the callback.
\<close>

definition reconcile_usages ::
  "int \<Rightarrow> string \<Rightarrow> string list \<Rightarrow> prisma_client \<Rightarrow> world \<Rightarrow> (error + unit) \<times> world" where
  "reconcile_usages now i serviceIds tx =
     and_then (execute tx (query (usage_findMany i))) (\<lambda>existingUsages.
       let existingIds = js_Set (map pu_serviceId existingUsages);
           incomingIds = js_Set serviceIds;
           toDelete = filter (\<lambda>x. x \<notin> set incomingIds) existingIds;
           toCreate = filter (\<lambda>x. x \<notin> set existingIds) incomingIds
       in and_then
            (if toDelete \<noteq> [] then execute tx (command (usage_deleteMany i toDelete))
             else skip)
            (\<lambda>deleted.
               if toCreate \<noteq> []
               then execute tx (command_or_throw
                      (usage_createMany now (map (\<lambda>serviceId. (i, serviceId)) toCreate)))
               else skip))"

text \<open>
  \<open>prisma.$transaction(async (tx) => ...)\<close>: the callback runs on the client \<open>tx\<close> of a
  transaction that starts from the committed rows. When the callback returns, the rows
  of the transaction become the committed rows (commit); when it throws, they are
  dropped and the committed rows stay (rollback). No handler issues a statement on
  \<open>prisma\<close> while a transaction is open.
\<close>

definition transaction ::
  "(prisma_client \<Rightarrow> world \<Rightarrow> (error + 'a) \<times> world) \<Rightarrow> world \<Rightarrow> (error + 'a) \<times> world" where
  "transaction callback w =
     (case callback Tx (w\<lparr>open_tx := Some (committed w)\<rparr>) of
        (Inr v, w1) \<Rightarrow>
          (Inr v, w1\<lparr>committed := (case open_tx w1 of Some t \<Rightarrow> t | None \<Rightarrow> committed w1),
                     open_tx := None\<rparr>)
      | (Inl e, w1) \<Rightarrow> (Inl e, w1\<lparr>open_tx := None\<rparr>))"

text \<open>The callback of the transaction in \<open>PUT\<close> (src/unnamed/part_009, lines 90-136).\<close>

definition patient_PUT_steps ::
  "int \<Rightarrow> string \<Rightarrow> patient_update_payload \<Rightarrow> prisma_client \<Rightarrow> world \<Rightarrow>
   (error + (patient \<times> usage list)) \<times> world" where
  "patient_PUT_steps now i payload tx =
     and_then (execute tx (patient_update i
                 \<lparr>pui_firstName = pup_firstName payload, pui_lastName = pup_lastName payload,
                  pui_phone = pup_phone payload, pui_email = pup_email payload,
                  pui_dob = pup_dob payload, pui_notes = pup_notes payload\<rparr>)) (\<lambda>updated.
     and_then (case pup_serviceIds payload of
                 None \<Rightarrow> skip
               | Some serviceIds \<Rightarrow> reconcile_usages now i serviceIds tx) (\<lambda>reconciled.
       execute tx (query_or_throw (patient_findUniqueOrThrow i))))"

text \<open>The \<open>PUT\<close> handler of the patient route (src/unnamed/part_009).\<close>

definition patient_error :: "error \<Rightarrow> (patient \<times> usage list) response" where
  "patient_error e =
     (case handleKnownError e of
        Some handled \<Rightarrow> handled
      | None \<Rightarrow> json_response 400 (ErrorJson ''Unable to update patient''))"

definition patients_PUT ::
  "jslib \<Rightarrow> int \<Rightarrow> string \<Rightarrow> json option \<Rightarrow> db \<Rightarrow> (patient \<times> usage list) response \<times> db" where
  "patients_PUT L now i req s =
     (case bind (request_json req) (patient_updateSchema L) of
        Inl e \<Rightarrow> (patient_error e, s)
      | Inr payload \<Rightarrow>
          (case transaction (patient_PUT_steps now i payload) \<lparr>committed = s, open_tx = None\<rparr> of
             (Inl e, w) \<Rightarrow> (patient_error e, committed w)
           | (Inr found, w) \<Rightarrow> (json_response 200 (Json found), committed w)))"

section \<open>Users: \<open>POST /api/users\<close>\<close>

record user_create_payload =
  ucp_email :: string
  ucp_name :: "string option"
  ucp_role :: "role option"
  ucp_password :: string

fun z_role :: "json \<Rightarrow> error + role" where
  "z_role (JStr t) =
     (if t = ''ADMIN'' then Inr ADMIN else if t = ''STAFF'' then Inr STAFF else Inl ZodError)"
| "z_role _ = Inl ZodError"

definition user_createSchema :: "jslib \<Rightarrow> json \<Rightarrow> error + user_create_payload" where
  "user_createSchema L j =
     (case j of
        JObj kvs \<Rightarrow>
          bind (required (z_email L) (get_field kvs ''email'')) (\<lambda>email.
          bind (optional (z_string_min 1) (get_field kvs ''name'')) (\<lambda>name.
          bind (optional z_role (get_field kvs ''role'')) (\<lambda>role.
          bind (required (z_string_min 6) (get_field kvs ''password'')) (\<lambda>password.
            Inr \<lparr>ucp_email = email, ucp_name = name, ucp_role = role,
                 ucp_password = password\<rparr>))))
      | _ \<Rightarrow> Inl ZodError)"

text \<open>
  Modelled from the spec: \<open>create\<close> on the User table (its schema is not under src/): the
  email is unique (\<open>src/lib/auth.ts\<close> finds a user by it with \<open>findUnique\<close>), and a
  second user with a stored email is the unique-constraint error P2002 on \<open>email\<close>.
\<close>

definition user_create :: "string \<Rightarrow> user \<Rightarrow> db \<Rightarrow> error + (user \<times> db)" where
  "user_create newId d s =
     (if u_email d \<in> set (map u_email (users s))
        then Inl (PrismaClientKnownRequestError ''P2002'' [''email''])
      else if newId \<in> set (map u_id (users s))
        then Inl (PrismaClientKnownRequestError ''P2002'' [''id''])
      else (let row = d\<lparr>u_id := newId\<rparr> in Inr (row, s\<lparr>users := users s @ [row]\<rparr>)))"

text \<open>\<open>baseSelect\<close>: the password hash is not returned.\<close>

record user_view =
  uv_id :: string
  uv_email :: string
  uv_name :: "string option"
  uv_role :: role

definition baseSelect :: "user \<Rightarrow> user_view" where
  "baseSelect row =
     \<lparr>uv_id = u_id row, uv_email = u_email row, uv_name = u_name row, uv_role = u_role row\<rparr>"

text \<open>The \<open>POST\<close> handler of \<open>src/app/api/users/route.ts\<close>.\<close>

definition users_POST ::
  "jslib \<Rightarrow> string \<Rightarrow> json option \<Rightarrow> db \<Rightarrow> user_view response \<times> db" where
  "users_POST L newId req s =
     (case bind (bind (request_json req) (user_createSchema L)) (\<lambda>payload.
             let passwordHash = bcryptHash L (ucp_password payload) in
             user_create newId
               \<lparr>u_id = newId, u_email = ucp_email payload, u_name = ucp_name payload,
                u_role = (case ucp_role payload of None \<Rightarrow> STAFF | Some x \<Rightarrow> x),
                u_passwordHash = passwordHash\<rparr> s) of
        Inr (row, s') \<Rightarrow> (json_response 201 (Json (baseSelect row)), s')
      | Inl e \<Rightarrow> (json_response 400 (ErrorJson ''Unable to create user''), s))"

section \<open>Services\<close>

text \<open>\<open>z.string().trim().max(n)\<close>\<close>

fun z_string_trim_max :: "nat \<Rightarrow> json \<Rightarrow> error + string" where
  "z_string_trim_max n (JStr t) = (if length (trim t) \<le> n then Inr (trim t) else Inl ZodError)"
| "z_string_trim_max n _ = Inl ZodError"

text \<open>\<open>z.coerce.number().int().min(lo).max(hi)\<close>\<close>

definition z_coerce_int_range :: "jslib \<Rightarrow> int \<Rightarrow> int \<Rightarrow> json \<Rightarrow> error + int" where
  "z_coerce_int_range L lo hi j =
     (case toInteger L j of
        None \<Rightarrow> Inl ZodError
      | Some n \<Rightarrow> (if lo \<le> n \<and> n \<le> hi then Inr n else Inl ZodError))"

text \<open>\<open>z.coerce.number().int().nonnegative()\<close>\<close>

definition z_coerce_int_nonnegative :: "jslib \<Rightarrow> json \<Rightarrow> error + int" where
  "z_coerce_int_nonnegative L j =
     (case toInteger L j of
        None \<Rightarrow> Inl ZodError
      | Some n \<Rightarrow> (if 0 \<le> n then Inr n else Inl ZodError))"

text \<open>\<open>Boolean(v)\<close>, which \<open>z.coerce.boolean()\<close> applies.\<close>

fun js_Boolean :: "json \<Rightarrow> bool" where
  "js_Boolean JNull = False"
| "js_Boolean (JBool b) = b"
| "js_Boolean (JNum n) = (n \<noteq> 0)"
| "js_Boolean (JStr t) = (t \<noteq> [])"
| "js_Boolean (JArr js) = True"
| "js_Boolean (JObj kvs) = True"

definition z_coerce_boolean :: "json \<Rightarrow> error + bool" where
  "z_coerce_boolean j = Inr (js_Boolean j)"

text \<open>\<open>z.string().cuid()\<close>\<close>

fun z_cuid :: "jslib \<Rightarrow> json \<Rightarrow> error + string" where
  "z_cuid L (JStr t) = (if isCuid L t then Inr t else Inl ZodError)"
| "z_cuid L _ = Inl ZodError"

text \<open>\<open>imagesSchema\<close>: trimmed non-empty strings, deduplicated, at least one.\<close>

definition imagesSchema :: "json \<Rightarrow> error + string list" where
  "imagesSchema j =
     bind (z_array (z_string_trim_min 1) j) (\<lambda>items.
       let unique = js_Set items in
       if 0 < length unique then Inr unique else Inl ZodError)"

record service_payload =
  svp_name :: string
  svp_description :: string
  svp_shortDescription :: "string nullable option"
  svp_priority :: "int nullable option"
  svp_active :: "bool option"
  svp_parentId :: "string nullable option"
  svp_images :: "string list"

text \<open>\<open>serviceSchema.parse\<close> of the services route (src/unnamed/part_005, lines 10-18).\<close>

definition serviceSchema :: "jslib \<Rightarrow> json \<Rightarrow> error + service_payload" where
  "serviceSchema L j =
     (case j of
        JObj kvs \<Rightarrow>
          bind (required (z_string_trim_min 1) (get_field kvs ''name'')) (\<lambda>name.
          bind (required (z_string_trim_min 1) (get_field kvs ''description'')) (\<lambda>description.
          bind (optional (nullable (z_string_trim_max 200)) (get_field kvs ''shortDescription''))
            (\<lambda>shortDescription.
          bind (optional (nullable (z_coerce_int_range L 0 1000)) (get_field kvs ''priority''))
            (\<lambda>priority.
          bind (optional z_coerce_boolean (get_field kvs ''active'')) (\<lambda>active.
          bind (optional (nullable (z_cuid L)) (get_field kvs ''parentId'')) (\<lambda>parentId.
          bind (required imagesSchema (get_field kvs ''images'')) (\<lambda>images.
            Inr \<lparr>svp_name = name, svp_description = description,
                 svp_shortDescription = shortDescription, svp_priority = priority,
                 svp_active = active, svp_parentId = parentId, svp_images = images\<rparr>)))))))
      | _ \<Rightarrow> Inl ZodError)"

record service_update_payload =
  sup_name :: "string option"
  sup_description :: "string option"
  sup_shortDescription :: "string nullable option"
  sup_priority :: "int nullable option"
  sup_active :: "bool option"
  sup_parentId :: "string nullable option"
  sup_images :: "string list option"

text \<open>\<open>updateSchema.parse\<close> of the service route (src/unnamed/part_005, lines 105-113).\<close>

definition service_updateSchema :: "jslib \<Rightarrow> json \<Rightarrow> error + service_update_payload" where
  "service_updateSchema L j =
     (case j of
        JObj kvs \<Rightarrow>
          bind (optional (z_string_trim_min 1) (get_field kvs ''name'')) (\<lambda>name.
          bind (optional (z_string_trim_min 1) (get_field kvs ''description'')) (\<lambda>description.
          bind (optional (nullable (z_string_trim_max 200)) (get_field kvs ''shortDescription''))
            (\<lambda>shortDescription.
          bind (optional (nullable (z_coerce_int_range L 0 1000)) (get_field kvs ''priority''))
            (\<lambda>priority.
          bind (optional z_coerce_boolean (get_field kvs ''active'')) (\<lambda>active.
          bind (optional (nullable (z_cuid L)) (get_field kvs ''parentId'')) (\<lambda>parentId.
          bind (optional imagesSchema (get_field kvs ''images'')) (\<lambda>images.
            Inr \<lparr>sup_name = name, sup_description = description,
                 sup_shortDescription = shortDescription, sup_priority = priority,
                 sup_active = active, sup_parentId = parentId, sup_images = images\<rparr>)))))))
      | _ \<Rightarrow> Inl ZodError)"

text \<open>
  The generated database client, which may be older than the code: it refuses a data key
  it does not know, and a column it does not know in the selection of a call, with a
  validation error whose message names the first of them. The data keys are checked
  before the selection; the answers of the handlers are the same in the other order.
\<close>

record client =
  knows_shortDescription :: bool
  knows_priority :: bool

definition unknown_argument_message :: "string \<Rightarrow> string" where
  "unknown_argument_message k =
     ''Unknown argument `'' @ k @ ''`. Available options are marked with ?.''"

definition unknown_argument :: "client \<Rightarrow> bool \<Rightarrow> bool \<Rightarrow> error option" where
  "unknown_argument C has_shortDescription has_priority =
     (if has_shortDescription \<and> \<not> knows_shortDescription C
        then Some (PrismaClientValidationError (unknown_argument_message ''shortDescription''))
      else if has_priority \<and> \<not> knows_priority C
        then Some (PrismaClientValidationError (unknown_argument_message ''priority''))
      else None)"

text \<open>
  \<open>baseIncludes\<close>, which every create and update of a service passes as \<open>include\<close>:
  the relations to load, each with the columns its \<open>select\<close> names. Both relations lead
  to services.
\<close>

definition baseIncludes :: "(string \<times> string list) list" where
  "baseIncludes =
     [(''parent'', [''id'', ''name'']),
      (''subServices'', [''id'', ''name'', ''active'', ''images'', ''shortDescription''])]"

definition unknown_field_message :: "string \<Rightarrow> string" where
  "unknown_field_message k =
     ''Unknown field `'' @ k @
     ''` for select statement on model `Service`. Available options are marked with ?.''"

definition selects :: "(string \<times> string list) list \<Rightarrow> string \<Rightarrow> bool" where
  "selects inc k = (k \<in> set (concat (map snd inc)))"

definition unknown_field :: "client \<Rightarrow> (string \<times> string list) list \<Rightarrow> error option" where
  "unknown_field C inc =
     (if selects inc ''shortDescription'' \<and> \<not> knows_shortDescription C
        then Some (PrismaClientValidationError (unknown_field_message ''shortDescription''))
      else if selects inc ''priority'' \<and> \<not> knows_priority C
        then Some (PrismaClientValidationError (unknown_field_message ''priority''))
      else None)"

text \<open>What the client refuses of a call: a data key first, then a selected column.\<close>

definition client_refuses ::
  "client \<Rightarrow> bool \<Rightarrow> bool \<Rightarrow> (string \<times> string list) list \<Rightarrow> error option" where
  "client_refuses C has_shortDescription has_priority inc =
     (case unknown_argument C has_shortDescription has_priority of
        Some e \<Rightarrow> Some e
      | None \<Rightarrow> unknown_field C inc)"

text \<open>The data of a create; a key that is not in the object is \<open>None\<close>.\<close>

record service_create_input =
  sc_name :: string
  sc_durationMin :: "int option"
  sc_priceCents :: "int option"
  sc_description :: string
  sc_shortDescription :: "string nullable option"
  sc_priority :: "int nullable option"
  sc_parent :: "string option"
  sc_images :: "string list"
  sc_active :: bool

definition nullable_value :: "'a nullable option \<Rightarrow> 'a option" where
  "nullable_value v = (case v of Some (Value x) \<Rightarrow> Some x | _ \<Rightarrow> None)"

text \<open>
  Modelled from the spec: \<open>create\<close> on the Service table (its schema is not under
  src/, the migrations add \<open>images\<close> and \<open>parentId\<close>). The client checks the data keys
  and the selection of \<open>include\<close>, then the parent to connect must exist (P2025
  otherwise) and the generated primary key \<open>newId\<close> must be new. The relations that
  \<open>include\<close> loads are left out of the returned record.
\<close>

definition service_create ::
  "client \<Rightarrow> string \<Rightarrow> service_create_input \<Rightarrow> (string \<times> string list) list \<Rightarrow> db \<Rightarrow>
   error + (service \<times> db)" where
  "service_create C newId d inc s =
     (case client_refuses C (sc_shortDescription d \<noteq> None) (sc_priority d \<noteq> None) inc of
        Some e \<Rightarrow> Inl e
      | None \<Rightarrow>
          (if newId \<in> set (map s_id (services s))
             then Inl (PrismaClientKnownRequestError ''P2002'' [''id''])
           else if \<not> ref_ok (map s_id (services s)) (sc_parent d)
             then Inl (PrismaClientKnownRequestError ''P2025'' [])
           else
             (let row = \<lparr>s_id = newId, s_name = sc_name d, s_description = sc_description d,
                         s_shortDescription = nullable_value (sc_shortDescription d),
                         s_priority = nullable_value (sc_priority d),
                         s_durationMin = sc_durationMin d, s_priceCents = sc_priceCents d,
                         s_active = sc_active d, s_parentId = sc_parent d,
                         s_images = sc_images d\<rparr>
              in Inr (row, s\<lparr>services := services s @ [row]\<rparr>))))"

text \<open>\<open>String.prototype.includes\<close>\<close>

fun starts_with :: "string \<Rightarrow> string \<Rightarrow> bool" where
  "starts_with t [] = True"
| "starts_with [] (c # cs) = False"
| "starts_with (d # ds) (c # cs) = (d = c \<and> starts_with ds cs)"

fun string_includes :: "string \<Rightarrow> string \<Rightarrow> bool" where
  "string_includes [] sub = (sub = [])"
| "string_includes (d # ds) sub = (starts_with (d # ds) sub \<or> string_includes ds sub)"

text \<open>\<open>payload.parentId ? { parent: { connect: { id } } } : {}\<close>\<close>

definition connect_parent :: "string nullable option \<Rightarrow> string option" where
  "connect_parent parentId =
     (case parentId of Some (Value p) \<Rightarrow> (if p \<noteq> [] then Some p else None) | _ \<Rightarrow> None)"

text \<open>\<open>v ?? null\<close> under a key that is always written.\<close>

definition or_null :: "'a nullable option \<Rightarrow> 'a nullable option" where
  "or_null v = (case v of None \<Rightarrow> Some Null | Some x \<Rightarrow> Some x)"

definition active_or_true :: "bool option \<Rightarrow> bool" where
  "active_or_true a = (case a of None \<Rightarrow> True | Some b \<Rightarrow> b)"

text \<open>The \<open>data\<close> object of the create in \<open>POST\<close> (src/unnamed/part_005, lines 58-66).\<close>

definition service_data :: "service_payload \<Rightarrow> service_create_input" where
  "service_data payload =
     \<lparr>sc_name = svp_name payload, sc_durationMin = None, sc_priceCents = None,
      sc_description = svp_description payload,
      sc_shortDescription = or_null (svp_shortDescription payload),
      sc_priority = or_null (svp_priority payload),
      sc_parent = connect_parent (svp_parentId payload),
      sc_images = svp_images payload,
      sc_active = active_or_true (svp_active payload)\<rparr>"

text \<open>The \<open>fallback\<close> object: the same without \<open>shortDescription\<close> and \<open>priority\<close>.\<close>

definition service_fallback :: "service_payload \<Rightarrow> service_create_input" where
  "service_fallback payload =
     (service_data payload)\<lparr>sc_shortDescription := None, sc_priority := None\<rparr>"

text \<open>The test on the message of the inner error.\<close>

definition unknown_column :: "error \<Rightarrow> bool" where
  "unknown_column innerErr =
     (let msg = message innerErr in
      string_includes msg ''Unknown argument `shortDescription`'' \<or>
      string_includes msg ''Unknown argument `priority`'')"

text \<open>
  The \<open>POST\<close> handler of the services route (src/unnamed/part_005, lines 53-94): the
  create, and in the inner \<open>catch\<close> the second create with the fallback data.
\<close>

definition services_POST ::
  "jslib \<Rightarrow> client \<Rightarrow> string \<Rightarrow> json option \<Rightarrow> db \<Rightarrow> service response \<times> db" where
  "services_POST L C newId req s =
     (case bind (bind (request_json req) (serviceSchema L)) (\<lambda>payload.
             (case service_create C newId (service_data payload) baseIncludes s of
                Inr created \<Rightarrow> Inr created
              | Inl innerErr \<Rightarrow>
                  (if unknown_column innerErr
                   then service_create C newId (service_fallback payload) baseIncludes s
                   else Inl innerErr))) of
        Inr (row, s') \<Rightarrow> (json_response 201 (Json row), s')
      | Inl e \<Rightarrow> (json_response 400 (ErrorJson ''Unable to create service''), s))"

record service_payload_v1 =
  svq_name :: string
  svq_durationMin :: int
  svq_priceCents :: "int option"
  svq_description :: string
  svq_shortDescription :: "string nullable option"
  svq_active :: "bool option"
  svq_parentId :: "string nullable option"
  svq_images :: "string list"

text \<open>
  \<open>serviceSchema.parse\<close> of \<open>src/app/api/services/route.ts\<close>, the revision with
  \<open>durationMin\<close> and \<open>priceCents\<close> and without \<open>priority\<close>.
\<close>

definition serviceSchema_v1 :: "jslib \<Rightarrow> json \<Rightarrow> error + service_payload_v1" where
  "serviceSchema_v1 L j =
     (case j of
        JObj kvs \<Rightarrow>
          bind (required (z_string_trim_min 1) (get_field kvs ''name'')) (\<lambda>name.
          bind (case get_field kvs ''durationMin'' of
                  None \<Rightarrow> Inr 30
                | Some v \<Rightarrow> z_coerce_int_range L 1 480 v) (\<lambda>durationMin.
          bind (optional (z_coerce_int_nonnegative L) (get_field kvs ''priceCents'')) (\<lambda>priceCents.
          bind (required (z_string_trim_min 1) (get_field kvs ''description'')) (\<lambda>description.
          bind (optional (nullable (z_string_trim_max 200)) (get_field kvs ''shortDescription''))
            (\<lambda>shortDescription.
          bind (optional z_coerce_boolean (get_field kvs ''active'')) (\<lambda>active.
          bind (optional (nullable (z_cuid L)) (get_field kvs ''parentId'')) (\<lambda>parentId.
          bind (required imagesSchema (get_field kvs ''images'')) (\<lambda>images.
            Inr \<lparr>svq_name = name, svq_durationMin = durationMin, svq_priceCents = priceCents,
                 svq_description = description, svq_shortDescription = shortDescription,
                 svq_active = active, svq_parentId = parentId, svq_images = images\<rparr>))))))))
      | _ \<Rightarrow> Inl ZodError)"

definition service_data_v1 :: "service_payload_v1 \<Rightarrow> service_create_input" where
  "service_data_v1 payload =
     \<lparr>sc_name = svq_name payload,
      sc_durationMin = Some (svq_durationMin payload),
      sc_priceCents = Some (case svq_priceCents payload of None \<Rightarrow> 0 | Some c \<Rightarrow> c),
      sc_description = svq_description payload,
      sc_shortDescription = or_null (svq_shortDescription payload),
      sc_priority = None,
      sc_parent = connect_parent (svq_parentId payload),
      sc_images = svq_images payload,
      sc_active = active_or_true (svq_active payload)\<rparr>"

text \<open>
  The \<open>POST\<close> handler of \<open>src/app/api/services/route.ts\<close> (lines 54-96): its inner
  \<open>catch\<close> looks for \<open>shortDescription\<close> only.
\<close>

definition services_POST_v1 ::
  "jslib \<Rightarrow> client \<Rightarrow> string \<Rightarrow> json option \<Rightarrow> db \<Rightarrow> service response \<times> db" where
  "services_POST_v1 L C newId req s =
     (case bind (bind (request_json req) (serviceSchema_v1 L)) (\<lambda>payload.
             (case service_create C newId (service_data_v1 payload) baseIncludes s of
                Inr created \<Rightarrow> Inr created
              | Inl innerErr \<Rightarrow>
                  (if string_includes (message innerErr) ''Unknown argument `shortDescription`''
                   then service_create C newId
                          ((service_data_v1 payload)\<lparr>sc_shortDescription := None\<rparr>) baseIncludes s
                   else Inl innerErr))) of
        Inr (row, s') \<Rightarrow> (json_response 201 (Json row), s')
      | Inl e \<Rightarrow> (json_response 400 (ErrorJson ''Unable to create service''), s))"

datatype parent_op = Connect string | Disconnect

text \<open>The \<open>data\<close> object of the update: a key that was not set is \<open>None\<close>.\<close>

record service_update_input =
  su_name :: "string option"
  su_description :: "string option"
  su_active :: "bool option"
  su_parent :: "parent_op option"
  su_shortDescription :: "string nullable option"
  su_priority :: "int nullable option"
  su_images :: "string list option"

definition set_parent :: "parent_op option \<Rightarrow> string option \<Rightarrow> string option" where
  "set_parent u old =
     (case u of None \<Rightarrow> old | Some Disconnect \<Rightarrow> None | Some (Connect p) \<Rightarrow> Some p)"

definition service_apply :: "service_update_input \<Rightarrow> service \<Rightarrow> service" where
  "service_apply d row =
     row\<lparr>s_name := set_value (su_name d) (s_name row),
         s_description := set_value (su_description d) (s_description row),
         s_active := set_value (su_active d) (s_active row),
         s_parentId := set_parent (su_parent d) (s_parentId row),
         s_shortDescription := set_nullable (su_shortDescription d) (s_shortDescription row),
         s_priority := set_nullable (su_priority d) (s_priority row),
         s_images := set_value (su_images d) (s_images row)\<rparr>"

text \<open>
  Modelled from the spec: \<open>update\<close> on the Service table. The client checks the data
  keys and the selection of \<open>include\<close>; a missing row and a missing parent to connect are
  the error P2025.
\<close>

definition service_update ::
  "client \<Rightarrow> string \<Rightarrow> service_update_input \<Rightarrow> (string \<times> string list) list \<Rightarrow> db \<Rightarrow>
   error + (service \<times> db)" where
  "service_update C i d inc s =
     (case client_refuses C (su_shortDescription d \<noteq> None) (su_priority d \<noteq> None) inc of
        Some e \<Rightarrow> Inl e
      | None \<Rightarrow>
          (case find (\<lambda>r. s_id r = i) (services s) of
             None \<Rightarrow> Inl (PrismaClientKnownRequestError ''P2025'' [])
           | Some old \<Rightarrow>
               (case su_parent d of
                  Some (Connect p) \<Rightarrow>
                    (if p \<in> set (map s_id (services s))
                     then Inr (service_apply d old, s\<lparr>services :=
                            map (\<lambda>r. if s_id r = i then service_apply d old else r) (services s)\<rparr>)
                     else Inl (PrismaClientKnownRequestError ''P2025'' []))
                | _ \<Rightarrow>
                    Inr (service_apply d old, s\<lparr>services :=
                      map (\<lambda>r. if s_id r = i then service_apply d old else r) (services s)\<rparr>))))"

text \<open>\<open>payload.parentId ? { connect: { id } } : { disconnect: true }\<close> under \<open>!== undefined\<close>\<close>

definition parent_data :: "string nullable option \<Rightarrow> parent_op option" where
  "parent_data parentId =
     (case parentId of
        None \<Rightarrow> None
      | Some Null \<Rightarrow> Some Disconnect
      | Some (Value p) \<Rightarrow> (if p \<noteq> [] then Some (Connect p) else Some Disconnect))"

text \<open>\<open>payload.parentId && payload.parentId === id\<close>\<close>

definition own_parent :: "string nullable option \<Rightarrow> string \<Rightarrow> bool" where
  "own_parent parentId i = (case parentId of Some (Value p) \<Rightarrow> p \<noteq> [] \<and> p = i | _ \<Rightarrow> False)"

text \<open>The \<open>data\<close> object built key by key in \<open>PATCH\<close> (lines 135-147).\<close>

definition service_update_data :: "service_update_payload \<Rightarrow> service_update_input" where
  "service_update_data payload =
     \<lparr>su_name = sup_name payload, su_description = sup_description payload,
      su_active = sup_active payload,
      su_parent = parent_data (sup_parentId payload),
      su_shortDescription = sup_shortDescription payload,
      su_priority = sup_priority payload,
      su_images = sup_images payload\<rparr>"

text \<open>\<open>rest\<close>: the data after the two \<open>delete\<close>s.\<close>

definition service_update_rest :: "service_update_payload \<Rightarrow> service_update_input" where
  "service_update_rest payload =
     (service_update_data payload)\<lparr>su_shortDescription := None, su_priority := None\<rparr>"

text \<open>The \<open>PATCH\<close> handler of the service route (src/unnamed/part_005, lines 123-175).\<close>

definition services_PATCH ::
  "jslib \<Rightarrow> client \<Rightarrow> string \<Rightarrow> json option \<Rightarrow> db \<Rightarrow> service response \<times> db" where
  "services_PATCH L C i req s =
     (case bind (request_json req) (service_updateSchema L) of
        Inl e \<Rightarrow> (json_response 400 (ErrorJson ''Unable to update service''), s)
      | Inr payload \<Rightarrow>
          (if own_parent (sup_parentId payload) i
           then (json_response 400 (ErrorJson ''A service cannot be its own parent''), s)
           else
             (case (case service_update C i (service_update_data payload) baseIncludes s of
                      Inr updated \<Rightarrow> Inr updated
                    | Inl innerErr \<Rightarrow>
                        (if unknown_column innerErr
                         then service_update C i (service_update_rest payload) baseIncludes s
                         else Inl innerErr)) of
                Inr (row, s') \<Rightarrow> (json_response 200 (Json row), s')
              | Inl e \<Rightarrow> (json_response 400 (ErrorJson ''Unable to update service''), s))))"

section \<open>Uploads: \<open>POST /api/uploads\<close>\<close>

definition MAX_FILE_SIZE :: nat where
  "MAX_FILE_SIZE = 4 * 1024 * 1024"

definition ALLOWED_MIME :: "string list" where
  "ALLOWED_MIME = [''image/jpeg'', ''image/png'', ''image/webp'', ''image/gif'', ''image/svg+xml'']"

text \<open>An uploaded \<open>File\<close>: its name, its MIME type and its bytes.\<close>

record upload_file =
  f_name :: string
  f_type :: string
  f_bytes :: "char list"

text \<open>An entry of the form data: a file or a plain string.\<close>

datatype form_entry = FileEntry upload_file | TextEntry string

text \<open>What is stored: the objects of the blob store, and the local file system.\<close>

datatype node = Directory | RegularFile "char list"

record storage =
  blobs :: "(string \<times> char list) list"
  disk :: "(string \<times> node) list"

text \<open>
  The surroundings of one upload: the blob module (missing, failing in \<open>put\<close>, or
  working), the address it gives to a key, the clock and the random identifier of the
  file name, \<open>path.extname\<close>, the serverless check and the two base directories.
\<close>

datatype blob_module = NoModule | PutThrows | PutWorks

record upload_env =
  ue_blob :: blob_module
  ue_blob_url :: "string \<Rightarrow> string"
  ue_now :: string
  ue_uuid :: string
  ue_extname :: "string \<Rightarrow> string"
  ue_isServerless :: bool
  ue_tmpdir :: string
  ue_cwd :: string

text \<open>
  \<open>ensureUploadsDir\<close>: a directory is left alone, a missing path (ENOENT) is created,
  any other node throws.
\<close>

definition ensureUploadsDir :: "string \<Rightarrow> storage \<Rightarrow> error + storage" where
  "ensureUploadsDir dirPath st =
     (case map_of (disk st) dirPath of
        Some Directory \<Rightarrow> Inr st
      | Some (RegularFile content) \<Rightarrow> Inl (Error ''Uploads path exists and is not a directory'')
      | None \<Rightarrow> Inr (st\<lparr>disk := (dirPath, Directory) # disk st\<rparr>))"

text \<open>The first half of \<open>saveFile\<close>: the blob store, whose failures are swallowed.\<close>

definition try_blob :: "upload_env \<Rightarrow> string \<Rightarrow> char list \<Rightarrow> storage \<Rightarrow> (string \<times> storage) option" where
  "try_blob E filename buffer st =
     (case ue_blob E of
        PutWorks \<Rightarrow>
          Some (ue_blob_url E (''uploads/'' @ filename),
                st\<lparr>blobs := (''uploads/'' @ filename, buffer) # blobs st\<rparr>)
      | _ \<Rightarrow> None)"

text \<open>\<open>saveFile\<close>\<close>

definition saveFile :: "upload_env \<Rightarrow> upload_file \<Rightarrow> storage \<Rightarrow> error + (string \<times> storage)" where
  "saveFile E file st =
     (let buffer = f_bytes file in
      if length buffer > MAX_FILE_SIZE then Inl (Error ''File too large'')
      else if f_type file \<notin> set ALLOWED_MIME then Inl (Error ''Unsupported file type'')
      else
        (let ext = ue_extname E (f_name file);
             filename = ue_now E @ ''-'' @ ue_uuid E @ ext
         in (case try_blob E filename buffer st of
               Some stored \<Rightarrow> Inr stored
             | None \<Rightarrow>
                 (let uploadsDir =
                        (if ue_isServerless E then ue_tmpdir E @ ''/uploads''
                         else ue_cwd E @ ''/public/uploads'')
                  in bind (ensureUploadsDir uploadsDir st) (\<lambda>st1.
                       let diskPath = uploadsDir @ ''/'' @ filename in
                       Inr (''/uploads/'' @ filename,
                            st1\<lparr>disk := (diskPath, RegularFile buffer) # disk st1\<rparr>))))))"

text \<open>
  The \<open>POST\<close> handler of \<open>src/app/api/uploads/route.ts\<close>. The request is what
  \<open>request.formData()\<close> gives: the entries, or the error it throws for a body that is
  not form data; \<open>formData.get\<close> gives the first entry of a name.
\<close>

definition uploads_POST ::
  "upload_env \<Rightarrow> error + (string \<times> form_entry) list \<Rightarrow> storage \<Rightarrow> string response \<times> storage" where
  "uploads_POST E req st =
     (case req of
        Inl e \<Rightarrow> (json_response 400 (ErrorJson (message e)), st)
      | Inr formData \<Rightarrow>
          (case map_of formData ''file'' of
             Some (FileEntry fileEntry) \<Rightarrow>
               (case saveFile E fileEntry st of
                  Inr (url, st') \<Rightarrow> (json_response 201 (Json url), st')
                | Inl e \<Rightarrow> (json_response 400 (ErrorJson (message e)), st))
           | _ \<Rightarrow> (json_response 400 (ErrorJson ''No file provided''), st)))"

section \<open>Notions used in the statements\<close>

text \<open>The value a request supplies under a key: nothing when the body is not an object.\<close>

definition req_field :: "json option \<Rightarrow> string \<Rightarrow> json option" where
  "req_field req k = (case req of Some (JObj kvs) \<Rightarrow> get_field kvs k | _ \<Rightarrow> None)"

text \<open>The service ids of the usage rows of a patient.\<close>

definition usage_ids :: "string \<Rightarrow> db \<Rightarrow> string set" where
  "usage_ids i s = pu_serviceId ` {u \<in> set (usages s). pu_patientId u = i}"

text \<open>The row a \<open>createMany\<close> inserts for a service id, and the unique pair of a row.\<close>

definition new_usage :: "int \<Rightarrow> string \<Rightarrow> string \<Rightarrow> usage" where
  "new_usage now i serviceId = \<lparr>pu_patientId = i, pu_serviceId = serviceId, pu_usedAt = now\<rparr>"

definition usage_key :: "usage \<Rightarrow> string \<times> string" where
  "usage_key u = (pu_patientId u, pu_serviceId u)"

section \<open>Example data\<close>

text \<open>A library instance, a database and requests on which the handlers are run.\<close>

definition lib0 :: jslib where
  "lib0 =
     \<lparr>newDate = (\<lambda>v. case v of
                  Some (JNum n) \<Rightarrow> Some n
                | Some (JStr t) \<Rightarrow> (if t = ''2025-01-01T10:00:00Z'' then Some 1735725600000 else None)
                | _ \<Rightarrow> None),
      toInteger = (\<lambda>j. case j of JNum n \<Rightarrow> Some n | _ \<Rightarrow> None),
      isEmail = (\<lambda>t. CHR ''@'' \<in> set t),
      isCuid = (\<lambda>t. case t of [] \<Rightarrow> False | c # cs \<Rightarrow> c = CHR ''c'' \<and> 8 \<le> length cs),
      bcryptHash = (\<lambda>p. ''$2a$10$'' @ p)\<rparr>"

definition db0 :: db where
  "db0 =
     \<lparr>patients =
        [\<lparr>p_id = ''p1'', p_firstName = ''Jane'', p_lastName = ''Doe'', p_phone = None,
          p_email = Some ''jane@example.com'', p_dob = None, p_notes = None\<rparr>,
         \<lparr>p_id = ''p2'', p_firstName = ''John'', p_lastName = ''Roe'', p_phone = Some ''555-0100'',
          p_email = Some ''john@example.com'', p_dob = None, p_notes = None\<rparr>],
      services =
        [\<lparr>s_id = ''svc1'', s_name = ''Checkup'', s_description = ''General checkup'',
          s_shortDescription = Some ''Checkup'', s_priority = Some 1,
          s_durationMin = None, s_priceCents = None, s_active = True,
          s_parentId = None, s_images = [''/uploads/a.png'']\<rparr>,
         \<lparr>s_id = ''svc2'', s_name = ''Vaccination'', s_description = ''Seasonal vaccines'',
          s_shortDescription = None, s_priority = Some 2,
          s_durationMin = None, s_priceCents = None, s_active = True,
          s_parentId = None, s_images = [''/uploads/b.png'']\<rparr>,
         \<lparr>s_id = ''svc3'', s_name = ''Lab work'', s_description = ''Blood tests'',
          s_shortDescription = None, s_priority = None,
          s_durationMin = None, s_priceCents = None, s_active = True,
          s_parentId = None, s_images = [''/uploads/c.png'']\<rparr>,
         \<lparr>s_id = ''cservice01'', s_name = ''Travel clinic'', s_description = ''Travel advice'',
          s_shortDescription = Some ''Travel'', s_priority = Some 3,
          s_durationMin = None, s_priceCents = None, s_active = True,
          s_parentId = None, s_images = [''/uploads/d.png'']\<rparr>],
      users =
        [\<lparr>u_id = ''u1'', u_email = ''admin@example.com'', u_name = Some ''Admin'',
          u_role = ADMIN, u_passwordHash = ''$2a$10$secret''\<rparr>],
      appointments =
        [\<lparr>a_id = ''a0'', a_patientId = None, a_customPatientName = Some ''Old Guest'',
          a_serviceId = ''svc1'', a_staffId = None, a_date = 1735725600000,
          a_status = COMPLETED, a_notes = None\<rparr>],
      usages =
        [\<lparr>pu_patientId = ''p1'', pu_serviceId = ''svc1'', pu_usedAt = 100\<rparr>,
         \<lparr>pu_patientId = ''p1'', pu_serviceId = ''svc2'', pu_usedAt = 200\<rparr>,
         \<lparr>pu_patientId = ''p2'', pu_serviceId = ''svc1'', pu_usedAt = 300\<rparr>]\<rparr>"

definition req_both :: json where
  "req_both = JObj [(''patientId'', JStr ''p1''), (''patientName'', JStr ''Guest A''),
                  (''serviceId'', JStr ''svc1''), (''date'', JStr ''2025-01-01T10:00:00Z'')]"

definition req_guest :: json where
  "req_guest = JObj [(''serviceId'', JStr ''svc1''), (''patientName'', JStr '' Guest A ''),
                  (''date'', JStr ''2025-01-01T10:00:00Z'')]"

definition req_neither :: json where
  "req_neither = JObj [(''patientName'', JStr ''  ''),
                  (''serviceId'', JStr ''svc1''), (''date'', JStr ''2025-01-01T10:00:00Z'')]"

definition row_both :: appointment where
  "row_both = \<lparr>a_id = ''a1'', a_patientId = Some ''p1'', a_customPatientName = None,
      a_serviceId = ''svc1'', a_staffId = None, a_date = 1735725600000, a_status = BOOKED,
      a_notes = None\<rparr>"

definition row_guest :: appointment where
  "row_guest = \<lparr>a_id = ''a1'', a_patientId = None, a_customPatientName = Some ''Guest A'',
      a_serviceId = ''svc1'', a_staffId = None, a_date = 1735725600000, a_status = BOOKED,
      a_notes = None\<rparr>"

definition client0 :: client where
  "client0 = \<lparr>knows_shortDescription = True, knows_priority = True\<rparr>"

definition q_pending :: search_params where
  "q_pending = \<lparr>sp_status = Some ''PENDING'', sp_from = None, sp_to = None, sp_patientId = None\<rparr>"

definition req_own_parent :: json where
  "req_own_parent = JObj [(''name'', JStr ''Travel clinic''), (''parentId'', JStr ''cservice01'')]"

definition env0 :: upload_env where
  "env0 = \<lparr>ue_blob = PutWorks, ue_blob_url = (\<lambda>k. ''https://blob.example.com/'' @ k),
     ue_now = ''1735725600000'', ue_uuid = ''123e4567-e89b-12d3-a456-426614174000'',
     ue_extname = (\<lambda>n. ''.png''), ue_isServerless = False, ue_tmpdir = ''/tmp'',
     ue_cwd = ''/app''\<rparr>"

definition st0 :: storage where
  "st0 = \<lparr>blobs = [], disk = []\<rparr>"

definition file_5MB :: upload_file where
  "file_5MB = \<lparr>f_name = ''scan.png'', f_type = ''image/png'',
      f_bytes = replicate (5 * 1024 * 1024) (CHR 0x00)\<rparr>"

definition req_dup_user :: json where
  "req_dup_user = JObj [(''email'', JStr ''admin@example.com''), (''password'', JStr ''hunter22'')]"

definition req_public :: json where
  "req_public = JObj [(''serviceId'', JStr ''svc1''), (''patientName'', JStr '' Guest A ''),
                  (''date'', JStr ''2025-01-01T10:00:00Z''), (''status'', JStr ''CANCELLED''),
                  (''staffId'', JStr ''u1'')]"

definition req_empty_patientId :: json where
  "req_empty_patientId = JObj [(''patientId'', JStr []), (''patientName'', JStr ''New Guest'')]"

definition req_null_patientId :: json where
  "req_null_patientId = JObj [(''patientId'', JNull), (''patientName'', JStr ''New Guest'')]"

definition req_set_patientId :: json where
  "req_set_patientId = JObj [(''patientId'', JStr ''p1'')]"

definition row_a0 :: appointment where
  "row_a0 = \<lparr>a_id = ''a0'', a_patientId = None, a_customPatientName = Some ''Old Guest'',
          a_serviceId = ''svc1'', a_staffId = None, a_date = 1735725600000,
          a_status = COMPLETED, a_notes = None\<rparr>"


definition client_old :: client where
  "client_old = \<lparr>knows_shortDescription = False, knows_priority = False\<rparr>"

definition req_service :: json where
  "req_service = JObj [(''name'', JStr ''Physio''), (''description'', JStr ''Physiotherapy''),
     (''shortDescription'', JStr ''Back on your feet''), (''priority'', JNum 5),
     (''images'', JArr [JStr ''/uploads/p.png''])]"






definition req_put :: json where
  "req_put = JObj [(''serviceIds'', JArr [JStr ''svc2'', JStr ''svc3''])]"

definition patient_p1 :: patient where
  "patient_p1 = \<lparr>p_id = ''p1'', p_firstName = ''Jane'', p_lastName = ''Doe'', p_phone = None,
          p_email = Some ''jane@example.com'', p_dob = None, p_notes = None\<rparr>"

definition usages_after :: "usage list" where
  "usages_after =
     [\<lparr>pu_patientId = ''p1'', pu_serviceId = ''svc2'', pu_usedAt = 200\<rparr>,
      \<lparr>pu_patientId = ''p2'', pu_serviceId = ''svc1'', pu_usedAt = 300\<rparr>,
      \<lparr>pu_patientId = ''p1'', pu_serviceId = ''svc3'', pu_usedAt = 1000\<rparr>]"

definition found_after :: "patient \<times> usage list" where
  "found_after =
     (patient_p1,
      [\<lparr>pu_patientId = ''p1'', pu_serviceId = ''svc3'', pu_usedAt = 1000\<rparr>,
       \<lparr>pu_patientId = ''p1'', pu_serviceId = ''svc2'', pu_usedAt = 200\<rparr>])"

definition req_put_missing :: json where
  "req_put_missing = JObj [(''firstName'', JStr ''Janet''),
     (''serviceIds'', JArr [JStr ''svc2'', JStr ''svcX''])]"

definition payload_put_missing :: patient_update_payload where
  "payload_put_missing = \<lparr>pup_firstName = Some ''Janet'', pup_lastName = None, pup_phone = None,
     pup_email = None, pup_dob = None, pup_notes = None,
     pup_serviceIds = Some [''svc2'', ''svcX'']\<rparr>"

definition db_janet :: db where
  "db_janet = db0\<lparr>patients :=
     [patient_p1\<lparr>p_firstName := ''Janet''\<rparr>,
      \<lparr>p_id = ''p2'', p_firstName = ''John'', p_lastName = ''Roe'', p_phone = Some ''555-0100'',
       p_email = Some ''john@example.com'', p_dob = None, p_notes = None\<rparr>]\<rparr>"

definition db_mid :: db where
  "db_mid = db_janet\<lparr>usages :=
     [\<lparr>pu_patientId = ''p1'', pu_serviceId = ''svc2'', pu_usedAt = 200\<rparr>,
      \<lparr>pu_patientId = ''p2'', pu_serviceId = ''svc1'', pu_usedAt = 300\<rparr>]\<rparr>"

definition error_missing_service :: error where
  "error_missing_service =
     PrismaClientKnownRequestError ''P2003'' [''PatientServiceUsage_serviceId_fkey'']"

section \<open>Verified properties\<close>

subsection \<open>Validation helpers\<close>

lemma bind_Inr_iff: "bind m f = Inr y \<longleftrightarrow> (\<exists>x. m = Inr x \<and> f x = Inr y)"
  by (cases m) (auto simp: bind_def)

lemma dropWhile_rev_fixed:
  assumes "t = [] \<or> \<not> P (hd t)"
  shows "dropWhile P (rev (dropWhile P (rev t))) = rev (dropWhile P (rev t))"
proof (cases "t = []")
  case True
  then show ?thesis by simp
next
  case False
  with assms have nP: "\<not> P (hd t)" by simp
  have mem: "hd t \<in> set (rev t)" using False by simp
  define u where "u = dropWhile P (rev t)"
  have u_ne: "u \<noteq> []"
    unfolding u_def using mem nP by (auto simp: dropWhile_eq_Nil_conv)
  have "last u = last (rev t)"
    unfolding u_def using mem nP by (rule dropWhile_last)
  also have "\<dots> = hd t" using False by (simp add: last_rev)
  finally have "hd (rev u) = hd t" using u_ne by (simp add: hd_rev)
  with nP have "dropWhile P (rev u) = rev u"
    by (simp add: dropWhile_eq_self_iff)
  then show ?thesis by (simp add: u_def)
qed

lemma trim_trim: "trim (trim s) = trim s"
proof -
  have "dropWhile is_space s = [] \<or> \<not> is_space (hd (dropWhile is_space s))"
    using hd_dropWhile [of is_space s] by blast
  then show ?thesis
    using dropWhile_rev_fixed [of "dropWhile is_space s" is_space]
    by (simp add: trim_def)
qed

lemma optional_Inr_None: "optional p None = Inr x \<longleftrightarrow> x = None"
  by (auto simp: optional_def)

lemma optional_Inr_Some: "optional p (Some j) = Inr x \<longleftrightarrow> (\<exists>y. p j = Inr y \<and> x = Some y)"
  by (cases "p j") (auto simp: optional_def)

lemma z_string_min_Inr: "z_string_min n j = Inr x \<longleftrightarrow> j = JStr x \<and> n \<le> length x"
  by (cases j) auto

lemma z_string_trim_min_Inr:
  "z_string_trim_min n j = Inr x \<longleftrightarrow> (\<exists>s. j = JStr s \<and> x = trim s \<and> n \<le> length x)"
  by (cases j) auto

lemma createSchema_Inr:
  assumes "createSchema L j = Inr p"
  shows "\<exists>kvs. j = JObj kvs \<and>
         optional (z_string_min 1) (get_field kvs ''patientId'') = Inr (cp_patientId p) \<and>
         optional (z_string_trim_min 1) (get_field kvs ''patientName'') = Inr (cp_patientName p) \<and>
         (truthy (cp_patientId p) \<or> truthy (cp_patientName p))"
  using assms
  by (cases j) (auto simp: createSchema_def bind_Inr_iff split: if_splits)

lemma appointment_create_Inr:
  assumes "appointment_create newId d s = Inr (row, s')"
  shows "a_patientId row = ci_patientId d \<and> a_customPatientName row = ci_customPatientName d
       \<and> a_status row = ci_status d \<and> a_staffId row = ci_staffId d \<and> a_id row = newId
       \<and> s' = s\<lparr>appointments := appointments s @ [row]\<rparr>"
  using assms by (auto simp: appointment_create_def Let_def split: if_splits)

lemma appointments_POST_cases:
  assumes "appointments_POST L newId req s = (r, s')"
  shows "(r = json_response 400 (ErrorJson ''Unable to create appointment'') \<and> s' = s) \<or>
         (\<exists>j p row. req = Some j \<and> createSchema L j = Inr p \<and>
            r = json_response 201 (Json row) \<and>
            s' = s\<lparr>appointments := appointments s @ [row]\<rparr> \<and>
            a_patientId row = cp_patientId p \<and>
            a_customPatientName row =
              (if truthy (cp_patientId p) then None else sanitizePatientName (cp_patientName p)) \<and>
            a_status row = status_or_booked (cp_status p))"
proof (cases "bind (request_json req) (createSchema L)")
  case (Inl e)
  with assms show ?thesis by (simp add: appointments_POST_def bind_def)
next
  case (Inr p)
  then obtain j where j: "req = Some j" "createSchema L j = Inr p"
    by (auto simp: bind_Inr_iff request_json_def split: option.splits)
  show ?thesis
  proof (cases "appointment_create newId
               \<lparr>ci_patientId = cp_patientId p,
                ci_customPatientName =
                  (if truthy (cp_patientId p) then None else sanitizePatientName (cp_patientName p)),
                ci_serviceId = cp_serviceId p,
                ci_staffId = cp_staffId p,
                ci_date = cp_date p,
                ci_status = status_or_booked (cp_status p),
                ci_notes = notes_or_undefined (cp_notes p)\<rparr> s")
    case (Inl e)
    with Inr assms show ?thesis by (simp add: appointments_POST_def bind_def Let_def)
  next
    case (Inr res)
    obtain row s2 where res: "res = (row, s2)" by (cases res)
    from appointment_create_Inr [OF Inr [unfolded res]] \<open>bind (request_json req) (createSchema L) = Inr p\<close> assms Inr res j
    show ?thesis by (auto simp add: appointments_POST_def bind_def Let_def)
  qed
qed


lemma sanitizePatientName_trimmed:
  "trim n \<noteq> [] \<Longrightarrow> sanitizePatientName (Some (trim n)) = Some (trim n)"
  by (simp add: sanitizePatientName_def trim_trim)

lemma optional_string_min_cases:
  assumes "optional (z_string_min 1) v = Inr x"
  shows "v = None \<and> x = None \<or> (\<exists>t. v = Some (JStr t) \<and> t \<noteq> [] \<and> x = Some t)"
proof (cases v)
  case None
  with assms show ?thesis by (simp add: optional_Inr_None)
next
  case (Some a)
  with assms obtain y where "z_string_min 1 a = Inr y" "x = Some y"
    by (auto simp: optional_Inr_Some)
  moreover from this have "a = JStr y" "1 \<le> length y"
    by (simp_all add: z_string_min_Inr)
  ultimately show ?thesis using Some by auto
qed

lemma optional_string_trim_min_cases:
  assumes "optional (z_string_trim_min 1) v = Inr x"
  shows "v = None \<and> x = None \<or> (\<exists>t. v = Some (JStr t) \<and> trim t \<noteq> [] \<and> x = Some (trim t))"
proof (cases v)
  case None
  with assms show ?thesis by (simp add: optional_Inr_None)
next
  case (Some a)
  with assms obtain y where y: "z_string_trim_min 1 a = Inr y" "x = Some y"
    by (auto simp: optional_Inr_Some)
  then obtain t where "a = JStr t" "y = trim t" "1 \<le> length y"
    by (auto simp: z_string_trim_min_Inr)
  with y Some show ?thesis by auto
qed

lemma createSchema_identity:
  assumes "createSchema L j = Inr p"
  shows "(req_field (Some j) ''patientId'' = None \<and> cp_patientId p = None \<or>
          (\<exists>pid. req_field (Some j) ''patientId'' = Some (JStr pid) \<and> pid \<noteq> [] \<and> cp_patientId p = Some pid)) \<and>
         (cp_patientId p = None \<longrightarrow>
          (\<exists>n. req_field (Some j) ''patientName'' = Some (JStr n) \<and> trim n \<noteq> [] \<and> cp_patientName p = Some (trim n)))"
proof -
  from createSchema_Inr [OF assms] obtain kvs where kvs: "j = JObj kvs"
    and pid: "optional (z_string_min 1) (get_field kvs ''patientId'') = Inr (cp_patientId p)"
    and pn: "optional (z_string_trim_min 1) (get_field kvs ''patientName'') = Inr (cp_patientName p)"
    and tr: "truthy (cp_patientId p) \<or> truthy (cp_patientName p)"
    by blast
  have f: "req_field (Some j) k = get_field kvs k" for k
    by (simp add: req_field_def kvs)
  from optional_string_min_cases [OF pid] optional_string_trim_min_cases [OF pn] tr
  show ?thesis
    unfolding f by (auto simp: truthy_def)
qed

lemmas validation_defs =
  bind_def request_json_def get_field_def optional_def required_def nullable_def
  z_coerce_date_def truthy_def trim_def is_space_def ref_ok_def json_response_def Let_def

lemmas appointments_POST_defs =
  appointments_POST_def createSchema_def sanitizePatientName_def appointment_create_def
  status_or_booked_def notes_or_undefined_def

subsection \<open>Appointment creation stores exactly one patient identification\<close>

lemma appointments_POST_both:
  "appointments_POST lib0 ''a1'' (Some req_both) db0 =
    (json_response 201 (Json row_both), db0\<lparr>appointments := appointments db0 @ [row_both]\<rparr>)"
  by (simp add: appointments_POST_defs validation_defs req_both_def row_both_def db0_def lib0_def)

lemma appointments_POST_guest:
  "appointments_POST lib0 ''a1'' (Some req_guest) db0 =
    (json_response 201 (Json row_guest), db0\<lparr>appointments := appointments db0 @ [row_guest]\<rparr>)"
  by (simp add: appointments_POST_defs validation_defs req_guest_def row_guest_def db0_def lib0_def)

lemma appointments_POST_neither:
  "appointments_POST lib0 ''a1'' (Some req_neither) db0 =
    (json_response 400 (ErrorJson ''Unable to create appointment''), db0)"
  by (simp add: appointments_POST_defs validation_defs req_neither_def db0_def lib0_def)

text \<open>
  C1. Every request to \<open>POST /api/appointments\<close> is either rejected with status 400 and
  leaves the database as it was, or creates one row that stores exactly one of
  \<open>patientId\<close> and \<open>customPatientName\<close>. When \<open>patientId\<close> is supplied the row stores it
  and no guest name (also when \<open>patientName\<close> is supplied with it); when it is not, the row
  stores the trimmed \<open>patientName\<close>. A request with no \<open>patientId\<close> and no
  \<open>patientName\<close>, or with a \<open>patientName\<close> that is empty after trimming, is rejected and
  nothing is persisted.
\<close>

theorem appointments_POST_exactly_one_identity:
  assumes "appointments_POST L newId req s = (r, s')"
  shows "(status r = 400 \<and> body r = ErrorJson ''Unable to create appointment'' \<and> s' = s \<or>
          status r = 201 \<and>
          (\<exists>row. body r = Json row \<and> s' = s\<lparr>appointments := appointments s @ [row]\<rparr> \<and>
             (a_patientId row = None) \<noteq> (a_customPatientName row = None) \<and>
             (req_field req ''patientId'' \<noteq> None \<longrightarrow>
                (\<exists>pid. req_field req ''patientId'' = Some (JStr pid) \<and> a_patientId row = Some pid) \<and>
                a_customPatientName row = None) \<and>
             (req_field req ''patientId'' = None \<longrightarrow>
                (\<exists>n. req_field req ''patientName'' = Some (JStr n) \<and> trim n \<noteq> [] \<and>
                     a_customPatientName row = Some (trim n))))) \<and>
         (req_field req ''patientId'' = None \<and>
          (req_field req ''patientName'' = None \<or>
           (\<exists>n. req_field req ''patientName'' = Some (JStr n) \<and> trim n = [])) \<longrightarrow>
          status r = 400 \<and> body r = ErrorJson ''Unable to create appointment'' \<and> s' = s)"
proof -
  from appointments_POST_cases [OF assms]
  consider (rejected) "r = json_response 400 (ErrorJson ''Unable to create appointment'')" "s' = s"
    | (created) j p row where "req = Some j" "createSchema L j = Inr p"
        "r = json_response 201 (Json row)"
        "s' = s\<lparr>appointments := appointments s @ [row]\<rparr>"
        "a_patientId row = cp_patientId p"
        "a_customPatientName row =
           (if truthy (cp_patientId p) then None else sanitizePatientName (cp_patientName p))"
    by blast
  then show ?thesis
  proof cases
    case rejected
    then show ?thesis by (simp add: json_response_def)
  next
    case created
    note id0 = createSchema_identity [OF created(2)]
    note id = conjunct1 [OF id0] mp [OF conjunct2 [OF id0]]
    show ?thesis
    proof (cases "cp_patientId p")
      case None
      from id(2) [OF None] obtain n where n: "req_field (Some j) ''patientName'' = Some (JStr n)"
        "trim n \<noteq> []" "cp_patientName p = Some (trim n)" by blast
      from id(1) None have "req_field (Some j) ''patientId'' = None" by auto
      with created None n show ?thesis
        by (auto simp: json_response_def truthy_def sanitizePatientName_trimmed)
    next
      case (Some pid)
      with id(1) have "req_field (Some j) ''patientId'' = Some (JStr pid)" "pid \<noteq> []" by auto
      with created Some show ?thesis
        by (auto simp: json_response_def truthy_def)
    qed
  qed
qed



theorem appointments_POST_exactly_one_identity_witness:
  "appointments_POST lib0 ''a1'' (Some req_both) db0 =
     (json_response 201 (Json row_both), db0\<lparr>appointments := appointments db0 @ [row_both]\<rparr>) \<and>
   a_patientId row_both = Some ''p1'' \<and> a_customPatientName row_both = None \<and>
   appointments_POST lib0 ''a1'' (Some req_guest) db0 =
     (json_response 201 (Json row_guest), db0\<lparr>appointments := appointments db0 @ [row_guest]\<rparr>) \<and>
   a_patientId row_guest = None \<and> a_customPatientName row_guest = Some (trim '' Guest A '') \<and>
   appointments_POST lib0 ''a1'' (Some req_neither) db0 =
     (json_response 400 (ErrorJson ''Unable to create appointment''), db0)"
  using appointments_POST_exactly_one_identity [OF appointments_POST_both]
    appointments_POST_exactly_one_identity [OF appointments_POST_guest]
    appointments_POST_exactly_one_identity [OF appointments_POST_neither]
    appointments_POST_both appointments_POST_guest appointments_POST_neither
  by (simp add: json_response_def req_field_def req_both_def req_guest_def req_neither_def
      get_field_def row_both_def row_guest_def trim_def is_space_def)

subsection \<open>Listing appointments with an invalid status filter\<close>

text \<open>
  C10. A \<open>status\<close> query parameter of \<open>GET /api/appointments\<close> that is not one of
  BOOKED, COMPLETED, CANCELLED, NO_SHOW is ignored: the response is the response to the
  same request without the parameter, and no validation error is returned for it.
\<close>

theorem appointments_GET_ignores_invalid_status:
  assumes "sp_status q = Some v" and "v \<notin> {''BOOKED'', ''COMPLETED'', ''CANCELLED'', ''NO_SHOW''}"
  shows "appointments_GET L q s = appointments_GET L (q\<lparr>sp_status := None\<rparr>) s"
proof -
  from assms(2) have "map_of STATUS_ENUM v = None"
    by (simp add: STATUS_ENUM_def)
  then have "status_param (sp_status q) = status_param None"
    using assms(1) by (simp add: status_param_def)
  then show ?thesis
    by (simp add: appointments_GET_def split: option.split)
qed

theorem appointments_GET_ignores_invalid_status_witness:
  "sp_status q_pending = Some ''PENDING'' \<and>
   appointments_GET lib0 q_pending db0 = appointments_GET lib0 (q_pending\<lparr>sp_status := None\<rparr>) db0 \<and>
   appointments_GET lib0 q_pending db0 = json_response 200 (Json (appointments db0))"
proof -
  have a: "sp_status q_pending = Some ''PENDING''" by (simp add: q_pending_def)
  have b: "''PENDING'' \<notin> {''BOOKED'', ''COMPLETED'', ''CANCELLED'', ''NO_SHOW''}" by simp
  have c: "appointments_GET lib0 (q_pending\<lparr>sp_status := None\<rparr>) db0 = json_response 200 (Json (appointments db0))"
    by (simp add: appointments_GET_def q_pending_def date_param_def status_param_def truthy_def
        appointment_findMany_def matches_def db0_def)
  from appointments_GET_ignores_invalid_status [OF a b, of lib0 db0] a c show ?thesis by simp
qed

subsection \<open>Oversized uploads\<close>

text \<open>
  C8. A file sent to \<open>POST /api/uploads\<close> whose byte length exceeds the 4MB limit is
  rejected with the error "File too large", and neither the blob store nor the disk is
  written: the storage after the request is the storage before it, whatever the
  environment.
\<close>

theorem uploads_POST_rejects_large_file:
  assumes "map_of formData ''file'' = Some (FileEntry file)"
    and "length (f_bytes file) > MAX_FILE_SIZE"
  shows "saveFile E file st = Inl (Error ''File too large'') \<and>
         uploads_POST E (Inr formData) st = (json_response 400 (ErrorJson ''File too large''), st)"
  using assms by (simp add: uploads_POST_def saveFile_def)

theorem uploads_POST_rejects_large_file_witness:
  "map_of [(''file'', FileEntry file_5MB)] ''file'' = Some (FileEntry file_5MB) \<and>
   length (f_bytes file_5MB) > MAX_FILE_SIZE \<and>
   uploads_POST env0 (Inr [(''file'', FileEntry file_5MB)]) st0 =
     (json_response 400 (ErrorJson ''File too large''), st0)"
proof -
  have a: "map_of [(''file'', FileEntry file_5MB)] ''file'' = Some (FileEntry file_5MB)" by simp
  have b: "length (f_bytes file_5MB) > MAX_FILE_SIZE"
    by (simp add: file_5MB_def MAX_FILE_SIZE_def)
  from uploads_POST_rejects_large_file [OF a b, of env0 st0] a b show ?thesis by simp
qed

subsection \<open>A service cannot become its own parent\<close>

lemma service_updateSchema_parentId:
  assumes "service_updateSchema L j = Inr payload"
  shows "\<exists>kvs. j = JObj kvs \<and>
     optional (nullable (z_cuid L)) (get_field kvs ''parentId'') = Inr (sup_parentId payload)"
  using assms
  by (cases j) (auto simp: service_updateSchema_def bind_Inr_iff)

lemma services_PATCH_own_parent:
  "services_PATCH lib0 client0 ''cservice01'' (Some req_own_parent) db0 =
     (json_response 400 (ErrorJson ''A service cannot be its own parent''), db0)"
  by (simp add: services_PATCH_def service_updateSchema_def req_own_parent_def lib0_def
       own_parent_def validation_defs)

text \<open>
  C7. A \<open>PATCH /api/services/[id]\<close> whose \<open>parentId\<close> is the service's own id is
  answered with status 400 and leaves the database unchanged. The id is a route segment,
  hence not empty.
\<close>

theorem services_PATCH_rejects_own_parent:
  assumes "req_field req ''parentId'' = Some (JStr i)" and "i \<noteq> []"
    and "services_PATCH L C i req s = (r, s')"
  shows "status r = 400 \<and> s' = s"
proof (cases "bind (request_json req) (service_updateSchema L)")
  case (Inl e)
  with assms(3) show ?thesis by (auto simp: services_PATCH_def json_response_def)
next
  case (Inr payload)
  then obtain j where j: "req = Some j" "service_updateSchema L j = Inr payload"
    by (auto simp: bind_Inr_iff request_json_def split: option.splits)
  from service_updateSchema_parentId [OF j(2)] obtain kvs where kvs: "j = JObj kvs"
    and p: "optional (nullable (z_cuid L)) (get_field kvs ''parentId'') = Inr (sup_parentId payload)"
    by blast
  from assms(1) j(1) kvs have "get_field kvs ''parentId'' = Some (JStr i)"
    by (simp add: req_field_def)
  with p have "sup_parentId payload = Some (Value i)"
    by (auto simp: optional_def nullable_def split: sum.splits if_splits)
  with assms(2) have "own_parent (sup_parentId payload) i"
    by (simp add: own_parent_def)
  with Inr assms(3) show ?thesis
    by (auto simp: services_PATCH_def json_response_def)
qed


theorem services_PATCH_rejects_own_parent_witness:
  "req_field (Some req_own_parent) ''parentId'' = Some (JStr ''cservice01'') \<and>
   services_PATCH lib0 client0 ''cservice01'' (Some req_own_parent) db0 =
     (json_response 400 (ErrorJson ''A service cannot be its own parent''), db0) \<and>
   status (json_response 400 (ErrorJson ''A service cannot be its own parent'') :: service response) = 400"
proof -
  have a: "req_field (Some req_own_parent) ''parentId'' = Some (JStr ''cservice01'')"
    by (simp add: req_field_def req_own_parent_def get_field_def)
  have b: "''cservice01'' \<noteq> []" by simp
  from services_PATCH_rejects_own_parent [OF a b services_PATCH_own_parent] a
    services_PATCH_own_parent
  show ?thesis by simp
qed

subsection \<open>Creating a user with an email in use\<close>

lemma users_POST_status:
  "status (fst (users_POST L newId req s)) = 201 \<or> status (fst (users_POST L newId req s)) = 400"
  by (auto simp: users_POST_def json_response_def split: sum.splits prod.splits)

text \<open>
  C5. Creating a user whose email is already stored: the unique-constraint error of the
  create is answered by \<open>POST /api/users\<close> with status 400 and "Unable to create user",
  while \<open>handleKnownError\<close> of the patient route turns the same error into status 409
  and "Email already in use."; no request to \<open>POST /api/users\<close> is answered with 409.
\<close>

theorem users_POST_duplicate_email:
  "user_create ''u2''
     \<lparr>u_id = ''u2'', u_email = ''admin@example.com'', u_name = None, u_role = STAFF,
      u_passwordHash = ''$2a$10$hunter22''\<rparr> db0 =
     Inl (PrismaClientKnownRequestError ''P2002'' [''email'']) \<and>
   users_POST lib0 ''u2'' (Some req_dup_user) db0 =
     (json_response 400 (ErrorJson ''Unable to create user''), db0) \<and>
   (handleKnownError (PrismaClientKnownRequestError ''P2002'' [''email'']) :: user_view response option) =
     Some (json_response 409 (ErrorJson ''Email already in use.'')) \<and>
   (\<forall>L newId req s. status (fst (users_POST L newId req s)) \<noteq> 409)"
proof -
  have "status (fst (users_POST L newId req s)) \<noteq> 409" for L newId req s
    using users_POST_status [of L newId req s] by auto
  then show ?thesis
    by (simp add: users_POST_def user_createSchema_def user_create_def req_dup_user_def lib0_def
      db0_def handleKnownError_def uniqueFieldMessage_def validation_defs)
qed

subsection \<open>The status of a created appointment\<close>

lemma createSchema_status:
  assumes "createSchema L j = Inr p"
  shows "\<exists>kvs. j = JObj kvs \<and> optional z_status (get_field kvs ''status'') = Inr (cp_status p)"
  using assms
  by (cases j) (auto simp: createSchema_def bind_Inr_iff split: if_splits)

lemma bookingSchema_Inr:
  assumes "bookingSchema L j = Inr p"
  shows "\<exists>kvs. j = JObj kvs \<and>
         optional (z_string_min 1) (get_field kvs ''patientId'') = Inr (bp_patientId p) \<and>
         optional (z_string_trim_min 1) (get_field kvs ''patientName'') = Inr (bp_patientName p) \<and>
         (truthy (bp_patientId p) \<or> truthy (bp_patientName p))"
  using assms
  by (cases j) (auto simp: bookingSchema_def bind_Inr_iff split: if_splits)

lemma bookingSchema_identity:
  assumes "bookingSchema L j = Inr p"
  shows "(req_field (Some j) ''patientId'' = None \<and> bp_patientId p = None \<or>
          (\<exists>pid. req_field (Some j) ''patientId'' = Some (JStr pid) \<and> pid \<noteq> [] \<and> bp_patientId p = Some pid)) \<and>
         (bp_patientId p = None \<longrightarrow>
          (\<exists>n. req_field (Some j) ''patientName'' = Some (JStr n) \<and> trim n \<noteq> [] \<and> bp_patientName p = Some (trim n)))"
proof -
  from bookingSchema_Inr [OF assms] obtain kvs where kvs: "j = JObj kvs"
    and pid: "optional (z_string_min 1) (get_field kvs ''patientId'') = Inr (bp_patientId p)"
    and pn: "optional (z_string_trim_min 1) (get_field kvs ''patientName'') = Inr (bp_patientName p)"
    and tr: "truthy (bp_patientId p) \<or> truthy (bp_patientName p)"
    by blast
  have f: "req_field (Some j) k = get_field kvs k" for k
    by (simp add: req_field_def kvs)
  from optional_string_min_cases [OF pid] optional_string_trim_min_cases [OF pn] tr
  show ?thesis
    unfolding f by (auto simp: truthy_def)
qed

lemma sanitize_trimmed: "trim n \<noteq> [] \<Longrightarrow> sanitize (Some (trim n)) = Some (trim n)"
  by (simp add: sanitize_def trim_trim)

lemma public_appointments_POST_cases:
  assumes "public_appointments_POST L newId req s = (r, s')"
  shows "(r = json_response 400 (ErrorJson ''Unable to create appointment request.'') \<and> s' = s) \<or>
         (\<exists>j p row. req = Some j \<and> bookingSchema L j = Inr p \<and>
            r = json_response 201 (Json (booking_select row)) \<and>
            s' = s\<lparr>appointments := appointments s @ [row]\<rparr> \<and>
            a_patientId row = bp_patientId p \<and>
            a_customPatientName row =
              (if truthy (bp_patientId p) then None else sanitize (bp_patientName p)) \<and>
            a_staffId row = None \<and>
            a_status row = BOOKED)"
proof (cases "bind (request_json req) (bookingSchema L)")
  case (Inl e)
  with assms show ?thesis by (simp add: public_appointments_POST_def bind_def)
next
  case (Inr p)
  then obtain j where j: "req = Some j" "bookingSchema L j = Inr p"
    by (auto simp: bind_Inr_iff request_json_def split: option.splits)
  show ?thesis
  proof (cases "appointment_create newId
               \<lparr>ci_patientId = bp_patientId p,
                ci_customPatientName =
                  (if truthy (bp_patientId p) then None else sanitize (bp_patientName p)),
                ci_serviceId = bp_serviceId p,
                ci_staffId = None,
                ci_date = bp_date p,
                ci_status = STATUS_DEFAULT,
                ci_notes = sanitize (bp_notes p)\<rparr> s")
    case (Inl e)
    with Inr assms show ?thesis by (simp add: public_appointments_POST_def bind_def Let_def)
  next
    case (Inr res)
    obtain row s2 where res: "res = (row, s2)" by (cases res)
    from appointment_create_Inr [OF Inr [unfolded res]] \<open>bind (request_json req) (bookingSchema L) = Inr p\<close> assms Inr res j
    show ?thesis by (auto simp add: public_appointments_POST_def bind_def Let_def STATUS_DEFAULT_def)
  qed
qed

lemmas public_appointments_POST_defs =
  public_appointments_POST_def bookingSchema_def sanitize_def appointment_create_def
  STATUS_DEFAULT_def booking_select_def

lemma public_appointments_POST_guest:
  "public_appointments_POST lib0 ''a1'' (Some req_public) db0 =
    (json_response 201 (Json (booking_select row_guest)),
     db0\<lparr>appointments := appointments db0 @ [row_guest]\<rparr>)"
  by (simp add: public_appointments_POST_defs validation_defs req_public_def row_guest_def
      db0_def lib0_def)

text \<open>
  C6. A create on \<open>POST /api/appointments\<close> that omits \<open>status\<close> stores the status
  BOOKED. A create on the public booking endpoint stores BOOKED and no staff member
  whatever the request holds. On both, a create with no \<open>patientId\<close> stores
  \<open>patientId = null\<close> and the trimmed \<open>patientName\<close> as \<open>customPatientName\<close>.
\<close>

theorem appointments_created_BOOKED:
  "(appointments_POST L newId req s = (r, s') \<and> status r = 201 \<and> req_field req ''status'' = None \<longrightarrow>
      (\<exists>row. body r = Json row \<and> s' = s\<lparr>appointments := appointments s @ [row]\<rparr> \<and>
         a_status row = BOOKED \<and>
         (req_field req ''patientId'' = None \<longrightarrow>
            a_patientId row = None \<and>
            (\<exists>n. req_field req ''patientName'' = Some (JStr n) \<and>
                 a_customPatientName row = Some (trim n))))) \<and>
   (public_appointments_POST L newId req s = (r2, s2) \<and> status r2 = 201 \<longrightarrow>
      (\<exists>row. body r2 = Json (booking_select row) \<and>
         s2 = s\<lparr>appointments := appointments s @ [row]\<rparr> \<and>
         a_status row = BOOKED \<and> a_staffId row = None \<and>
         (req_field req ''patientId'' = None \<longrightarrow>
            a_patientId row = None \<and>
            (\<exists>n. req_field req ''patientName'' = Some (JStr n) \<and>
                 a_customPatientName row = Some (trim n)))))"
proof (intro conjI impI)
  assume a: "appointments_POST L newId req s = (r, s') \<and> status r = 201 \<and> req_field req ''status'' = None"
  then have run: "appointments_POST L newId req s = (r, s')" and ok: "status r = 201"
    and nost: "req_field req ''status'' = None" by simp_all
  from appointments_POST_cases [OF run] ok
  obtain j p row where c: "req = Some j" "createSchema L j = Inr p"
        "r = json_response 201 (Json row)"
        "s' = s\<lparr>appointments := appointments s @ [row]\<rparr>"
        "a_patientId row = cp_patientId p"
        "a_customPatientName row =
           (if truthy (cp_patientId p) then None else sanitizePatientName (cp_patientName p))"
        "a_status row = status_or_booked (cp_status p)"
    by (auto simp: json_response_def)
  from createSchema_status [OF c(2)] nost c(1) have "cp_status p = None"
    by (auto simp: req_field_def optional_Inr_None)
  then have st: "a_status row = BOOKED" using c(7) by (simp add: status_or_booked_def)
  note id0 = createSchema_identity [OF c(2)]
  have guest: "a_patientId row = None \<and>
            (\<exists>n. req_field req ''patientName'' = Some (JStr n) \<and>
                 a_customPatientName row = Some (trim n))" if "req_field req ''patientId'' = None"
  proof -
    from id0 that c(1) have none: "cp_patientId p = None" by auto
    with id0 obtain n where "req_field (Some j) ''patientName'' = Some (JStr n)" "trim n \<noteq> []"
      "cp_patientName p = Some (trim n)" by blast
    with none c show ?thesis by (auto simp: truthy_def sanitizePatientName_trimmed)
  qed
  from c(3) c(4) st guest
  show "\<exists>row. body r = Json row \<and> s' = s\<lparr>appointments := appointments s @ [row]\<rparr> \<and>
         a_status row = BOOKED \<and>
         (req_field req ''patientId'' = None \<longrightarrow>
            a_patientId row = None \<and>
            (\<exists>n. req_field req ''patientName'' = Some (JStr n) \<and>
                 a_customPatientName row = Some (trim n)))"
    by (intro exI [of _ row]) (simp add: json_response_def)
next
  assume a: "public_appointments_POST L newId req s = (r2, s2) \<and> status r2 = 201"
  then have run: "public_appointments_POST L newId req s = (r2, s2)" and ok: "status r2 = 201"
    by simp_all
  from public_appointments_POST_cases [OF run] ok
  obtain j p row where c: "req = Some j" "bookingSchema L j = Inr p"
        "r2 = json_response 201 (Json (booking_select row))"
        "s2 = s\<lparr>appointments := appointments s @ [row]\<rparr>"
        "a_patientId row = bp_patientId p"
        "a_customPatientName row =
           (if truthy (bp_patientId p) then None else sanitize (bp_patientName p))"
        "a_staffId row = None"
        "a_status row = BOOKED"
    by (auto simp: json_response_def)
  note id0 = bookingSchema_identity [OF c(2)]
  have guest: "a_patientId row = None \<and>
            (\<exists>n. req_field req ''patientName'' = Some (JStr n) \<and>
                 a_customPatientName row = Some (trim n))" if "req_field req ''patientId'' = None"
  proof -
    from id0 that c(1) have none: "bp_patientId p = None" by auto
    with id0 obtain n where "req_field (Some j) ''patientName'' = Some (JStr n)" "trim n \<noteq> []"
      "bp_patientName p = Some (trim n)" by blast
    with none c show ?thesis by (auto simp: truthy_def sanitize_trimmed)
  qed
  from c(3) c(4) c(7) c(8) guest
  show "\<exists>row. body r2 = Json (booking_select row) \<and>
         s2 = s\<lparr>appointments := appointments s @ [row]\<rparr> \<and>
         a_status row = BOOKED \<and> a_staffId row = None \<and>
         (req_field req ''patientId'' = None \<longrightarrow>
            a_patientId row = None \<and>
            (\<exists>n. req_field req ''patientName'' = Some (JStr n) \<and>
                 a_customPatientName row = Some (trim n)))"
    by (intro exI [of _ row]) (simp add: json_response_def)
qed

theorem appointments_created_BOOKED_witness:
  "appointments_POST lib0 ''a1'' (Some req_guest) db0 =
     (json_response 201 (Json row_guest), db0\<lparr>appointments := appointments db0 @ [row_guest]\<rparr>) \<and>
   req_field (Some req_guest) ''status'' = None \<and>
   req_field (Some req_guest) ''patientId'' = None \<and>
   public_appointments_POST lib0 ''a1'' (Some req_public) db0 =
     (json_response 201 (Json (booking_select row_guest)),
      db0\<lparr>appointments := appointments db0 @ [row_guest]\<rparr>) \<and>
   req_field (Some req_public) ''status'' = Some (JStr ''CANCELLED'') \<and>
   a_status row_guest = BOOKED \<and> a_staffId row_guest = None \<and> a_patientId row_guest = None \<and>
   a_customPatientName row_guest = Some (trim '' Guest A '')"
proof -
  have a: "req_field (Some req_guest) ''status'' = None" "req_field (Some req_guest) ''patientId'' = None"
    by (simp_all add: req_field_def req_guest_def get_field_def)
  have b: "req_field (Some req_public) ''status'' = Some (JStr ''CANCELLED'')"
    by (simp add: req_field_def req_public_def get_field_def)
  have c: "a_status row_guest = BOOKED" "a_staffId row_guest = None" "a_patientId row_guest = None"
    "a_customPatientName row_guest = Some (trim '' Guest A '')"
    by (simp_all add: row_guest_def trim_def is_space_def)
  from appointments_created_BOOKED [of lib0 "''a1''" "Some req_guest" db0
      "json_response 201 (Json row_guest)" "db0\<lparr>appointments := appointments db0 @ [row_guest]\<rparr>"]
    appointments_POST_guest public_appointments_POST_guest a b c
  show ?thesis by simp
qed

subsection \<open>The guest name under an appointment update\<close>

lemma updateSchema_Inr:
  assumes "updateSchema L j = Inr p"
  shows "\<exists>kvs. j = JObj kvs \<and>
         optional (nullable (z_string_min 1)) (get_field kvs ''patientId'') = Inr (up_patientId p) \<and>
         optional (nullable (z_string_trim_min 1)) (get_field kvs ''patientName'') = Inr (up_patientName p)"
  using assms
  by (cases j) (auto simp: updateSchema_def bind_Inr_iff)

lemma nullable_Inr:
  "nullable p j = Inr x \<longleftrightarrow> (j = JNull \<and> x = Null) \<or> (j \<noteq> JNull \<and> (\<exists>y. p j = Inr y \<and> x = Value y))"
  by (cases "p j") (auto simp: nullable_def)

lemma appointment_update_Inr:
  assumes "appointment_update i d s = Inr (row, s')"
  shows "\<exists>old. find (\<lambda>x. a_id x = i) (appointments s) = Some old \<and> row = appointment_apply d old \<and>
           s' = s\<lparr>appointments := map (\<lambda>x. if a_id x = i then row else x) (appointments s)\<rparr>"
  using assms
  by (auto simp: appointment_update_def Let_def split: option.splits if_splits)

lemma appointments_PATCH_cases:
  assumes "appointments_PATCH L i req s = (r, s')"
  shows "(r = json_response 400 (ErrorJson ''Unable to update appointment'') \<and> s' = s) \<or>
         (\<exists>j p old row. req = Some j \<and> updateSchema L j = Inr p \<and>
            find (\<lambda>x. a_id x = i) (appointments s) = Some old \<and>
            r = json_response 200 (Json row) \<and>
            s' = s\<lparr>appointments := map (\<lambda>x. if a_id x = i then row else x) (appointments s)\<rparr> \<and>
            a_patientId row = set_nullable (up_patientId p) (a_patientId old) \<and>
            a_customPatientName row =
              set_nullable (update_customPatientName (up_patientId p) (up_patientName p))
                (a_customPatientName old))"
proof (cases "bind (request_json req) (updateSchema L)")
  case (Inl e)
  with assms show ?thesis by (simp add: appointments_PATCH_def bind_def)
next
  case (Inr p)
  then obtain j where j: "req = Some j" "updateSchema L j = Inr p"
    by (auto simp: bind_Inr_iff request_json_def split: option.splits)
  define d where "d = \<lparr>ui_patientId = up_patientId p,
                ui_customPatientName =
                  update_customPatientName (up_patientId p) (up_patientName p),
                ui_serviceId = up_serviceId p,
                ui_staffId = up_staffId p,
                ui_date = up_date p,
                ui_status = up_status p,
                ui_notes = up_notes p\<rparr>"
  show ?thesis
  proof (cases "appointment_update i d s")
    case (Inl e)
    with Inr assms show ?thesis by (simp add: appointments_PATCH_def bind_def d_def)
  next
    case inr: (Inr res)
    obtain row s2 where res: "res = (row, s2)" by (cases res)
    from appointment_update_Inr [OF inr [unfolded res]] obtain old where
      old: "find (\<lambda>x. a_id x = i) (appointments s) = Some old" "row = appointment_apply d old"
        "s2 = s\<lparr>appointments := map (\<lambda>x. if a_id x = i then row else x) (appointments s)\<rparr>"
      by blast
    from Inr inr res assms have "r = json_response 200 (Json row)" "s' = s2"
      by (simp_all add: appointments_PATCH_def bind_def d_def)
    moreover from old(2) have "a_patientId row = set_nullable (up_patientId p) (a_patientId old)"
      "a_customPatientName row =
              set_nullable (update_customPatientName (up_patientId p) (up_patientName p))
                (a_customPatientName old)"
      by (simp_all add: appointment_apply_def d_def)
    ultimately show ?thesis using j old by blast
  qed
qed

lemma updateSchema_patientId:
  assumes "updateSchema L j = Inr p"
  shows "(req_field (Some j) ''patientId'' = None \<and> up_patientId p = None) \<or>
         (req_field (Some j) ''patientId'' = Some JNull \<and> up_patientId p = Some Null) \<or>
         (\<exists>pid. req_field (Some j) ''patientId'' = Some (JStr pid) \<and> pid \<noteq> [] \<and>
                up_patientId p = Some (Value pid))"
proof -
  from updateSchema_Inr [OF assms] obtain kvs where kvs: "j = JObj kvs"
    and pid: "optional (nullable (z_string_min 1)) (get_field kvs ''patientId'') = Inr (up_patientId p)"
    by blast
  have f: "req_field (Some j) k = get_field kvs k" for k
    by (simp add: req_field_def kvs)
  show ?thesis
  proof (cases "get_field kvs ''patientId''")
    case None
    with pid show ?thesis by (simp add: f optional_Inr_None)
  next
    case (Some a)
    with pid obtain y where y: "nullable (z_string_min 1) a = Inr y" "up_patientId p = Some y"
      by (auto simp: optional_Inr_Some)
    from y(1) consider "a = JNull" "y = Null"
      | t where "z_string_min 1 a = Inr t" "y = Value t"
      by (auto simp: nullable_Inr)
    then show ?thesis
    proof cases
      case 1
      with y(2) Some show ?thesis by (simp add: f)
    next
      case 2
      from 2(1) have "a = JStr t" "1 \<le> length t" by (simp_all add: z_string_min_Inr)
      then have "a = JStr t" "t \<noteq> []" by auto
      with 2(2) y(2) Some show ?thesis by (simp add: f)
    qed
  qed
qed

lemma updateSchema_patientName:
  assumes "updateSchema L j = Inr p"
  shows "(req_field (Some j) ''patientName'' = None \<and> up_patientName p = None) \<or>
         (req_field (Some j) ''patientName'' = Some JNull \<and> up_patientName p = Some Null) \<or>
         (\<exists>n. req_field (Some j) ''patientName'' = Some (JStr n) \<and> trim n \<noteq> [] \<and>
                up_patientName p = Some (Value (trim n)))"
proof -
  from updateSchema_Inr [OF assms] obtain kvs where kvs: "j = JObj kvs"
    and pn: "optional (nullable (z_string_trim_min 1)) (get_field kvs ''patientName'') = Inr (up_patientName p)"
    by blast
  have f: "req_field (Some j) k = get_field kvs k" for k
    by (simp add: req_field_def kvs)
  show ?thesis
  proof (cases "get_field kvs ''patientName''")
    case None
    with pn show ?thesis by (simp add: f optional_Inr_None)
  next
    case (Some a)
    with pn obtain y where y: "nullable (z_string_trim_min 1) a = Inr y" "up_patientName p = Some y"
      by (auto simp: optional_Inr_Some)
    then show ?thesis
      using Some by (auto simp: f nullable_Inr z_string_trim_min_Inr)
  qed
qed

lemma update_customPatientName_simps:
  "pid \<noteq> [] \<Longrightarrow> update_customPatientName (Some (Value pid)) n = Some Null"
  "update_customPatientName (Some Null) None = None"
  "update_customPatientName (Some Null) (Some Null) = Some Null"
  "trim t \<noteq> [] \<Longrightarrow> update_customPatientName (Some Null) (Some (Value (trim t))) = Some (Value (trim t))"
  by (simp_all add: update_customPatientName_def truthy_nullable_def
      sanitizePatientName_nullable_def trim_trim)

lemmas appointments_PATCH_defs =
  appointments_PATCH_def updateSchema_def z_coerce_date_optional_def appointment_update_def
  appointment_apply_def set_nullable_def set_value_def update_customPatientName_def
  truthy_nullable_def sanitizePatientName_nullable_def

lemma appointments_PATCH_null_patientId:
  "appointments_PATCH lib0 ''a0'' (Some req_null_patientId) db0 =
     (json_response 200 (Json (row_a0\<lparr>a_customPatientName := Some ''New Guest''\<rparr>)),
      db0\<lparr>appointments := [row_a0\<lparr>a_customPatientName := Some ''New Guest''\<rparr>]\<rparr>)"
  by (simp add: appointments_PATCH_defs validation_defs req_null_patientId_def
      db0_def lib0_def row_a0_def)

lemma appointments_PATCH_set_patientId:
  "appointments_PATCH lib0 ''a0'' (Some req_set_patientId) db0 =
     (json_response 200 (Json (row_a0\<lparr>a_patientId := Some ''p1'', a_customPatientName := None\<rparr>)),
      db0\<lparr>appointments := [row_a0\<lparr>a_patientId := Some ''p1'', a_customPatientName := None\<rparr>]\<rparr>)"
  by (simp add: appointments_PATCH_defs validation_defs req_set_patientId_def
      db0_def lib0_def row_a0_def)

lemma appointments_PATCH_empty:
  "appointments_PATCH lib0 ''a0'' (Some req_empty_patientId) db0 =
     (json_response 400 (ErrorJson ''Unable to update appointment''), db0)"
  by (simp add: appointments_PATCH_defs validation_defs req_empty_patientId_def
      db0_def lib0_def)

text \<open>
  C4, as the claim states it, with \<open>patientId\<close> supplied as the empty string and a
  \<open>patientName\<close>: the request is rejected with status 400 and the stored guest name
  stays what it was; it is not set from \<open>patientName\<close>.
\<close>

theorem appointments_PATCH_empty_patientId_counterexample:
  "req_field (Some req_empty_patientId) ''patientId'' = Some (JStr []) \<and>
   req_field (Some req_empty_patientId) ''patientName'' = Some (JStr ''New Guest'') \<and>
   appointments db0 = [row_a0] \<and> a_customPatientName row_a0 = Some ''Old Guest'' \<and>
   appointments_PATCH lib0 ''a0'' (Some req_empty_patientId) db0 =
     (json_response 400 (ErrorJson ''Unable to update appointment''), db0)"
  by (simp add: appointments_PATCH_defs validation_defs req_empty_patientId_def req_field_def
      db0_def lib0_def row_a0_def)

text \<open>
  C4, amended. A \<open>PATCH /api/appointments/[id]\<close> is either rejected with status 400 and
  changes nothing, or updates the row of that id. In the updated row: a \<open>patientId\<close>
  supplied as a string is not empty, is stored, and the guest name is NULL; with
  \<open>patientId\<close> supplied as \<open>null\<close>, the guest name is the trimmed \<open>patientName\<close> when
  that is supplied as a string, NULL when it is supplied as \<open>null\<close>, and unchanged when it
  is not supplied. A \<open>patientId\<close> supplied as the empty string is rejected with status
  400 and changes nothing.
\<close>

theorem appointments_PATCH_guest_name:
  assumes "appointments_PATCH L i req s = (r, s')"
  shows "(status r = 400 \<and> body r = ErrorJson ''Unable to update appointment'' \<and> s' = s \<or>
          status r = 200 \<and>
          (\<exists>old row. find (\<lambda>x. a_id x = i) (appointments s) = Some old \<and> body r = Json row \<and>
             s' = s\<lparr>appointments := map (\<lambda>x. if a_id x = i then row else x) (appointments s)\<rparr> \<and>
             (\<forall>pid. req_field req ''patientId'' = Some (JStr pid) \<longrightarrow>
                pid \<noteq> [] \<and> a_patientId row = Some pid \<and> a_customPatientName row = None) \<and>
             (req_field req ''patientId'' = Some JNull \<longrightarrow>
                (\<forall>n. req_field req ''patientName'' = Some (JStr n) \<longrightarrow>
                   a_customPatientName row = Some (trim n)) \<and>
                (req_field req ''patientName'' = Some JNull \<longrightarrow> a_customPatientName row = None) \<and>
                (req_field req ''patientName'' = None \<longrightarrow>
                   a_customPatientName row = a_customPatientName old)))) \<and>
         (req_field req ''patientId'' = Some (JStr []) \<longrightarrow>
            status r = 400 \<and> body r = ErrorJson ''Unable to update appointment'' \<and> s' = s)"
proof -
  from appointments_PATCH_cases [OF assms]
  consider (rejected) "r = json_response 400 (ErrorJson ''Unable to update appointment'')" "s' = s"
    | (updated) j p old row where "req = Some j" "updateSchema L j = Inr p"
        "find (\<lambda>x. a_id x = i) (appointments s) = Some old"
        "r = json_response 200 (Json row)"
        "s' = s\<lparr>appointments := map (\<lambda>x. if a_id x = i then row else x) (appointments s)\<rparr>"
        "a_patientId row = set_nullable (up_patientId p) (a_patientId old)"
        "a_customPatientName row =
              set_nullable (update_customPatientName (up_patientId p) (up_patientName p))
                (a_customPatientName old)"
    by blast
  then show ?thesis
  proof cases
    case rejected
    then show ?thesis by (simp add: json_response_def)
  next
    case updated
    note pid = updateSchema_patientId [OF updated(2)]
    note pn = updateSchema_patientName [OF updated(2)]
    have A: "pid \<noteq> [] \<and> a_patientId row = Some pid \<and> a_customPatientName row = None"
      if "req_field req ''patientId'' = Some (JStr pid)" for pid
      using that pid updated(1,6,7)
      by (auto simp: set_nullable_def update_customPatientName_simps)
    have B: "(\<forall>n. req_field req ''patientName'' = Some (JStr n) \<longrightarrow>
                   a_customPatientName row = Some (trim n)) \<and>
                (req_field req ''patientName'' = Some JNull \<longrightarrow> a_customPatientName row = None) \<and>
                (req_field req ''patientName'' = None \<longrightarrow>
                   a_customPatientName row = a_customPatientName old)"
      if "req_field req ''patientId'' = Some JNull"
    proof -
      from that pid updated(1) have "up_patientId p = Some Null" by auto
      with pn updated(1,7) show ?thesis
        by (auto simp: set_nullable_def update_customPatientName_simps)
    qed
    have C: "req_field req ''patientId'' \<noteq> Some (JStr [])"
      using pid updated(1) by auto
    from A B C updated(3,4,5) show ?thesis
      by (intro conjI disjI2 exI [of _ old] exI [of _ row] impI allI)
         (simp_all add: json_response_def)
  qed
qed

theorem appointments_PATCH_guest_name_witness:
  "req_field (Some req_set_patientId) ''patientId'' = Some (JStr ''p1'') \<and>
   appointments_PATCH lib0 ''a0'' (Some req_set_patientId) db0 =
     (json_response 200 (Json (row_a0\<lparr>a_patientId := Some ''p1'', a_customPatientName := None\<rparr>)),
      db0\<lparr>appointments := [row_a0\<lparr>a_patientId := Some ''p1'', a_customPatientName := None\<rparr>]\<rparr>) \<and>
   req_field (Some req_null_patientId) ''patientId'' = Some JNull \<and>
   req_field (Some req_null_patientId) ''patientName'' = Some (JStr ''New Guest'') \<and>
   appointments_PATCH lib0 ''a0'' (Some req_null_patientId) db0 =
     (json_response 200 (Json (row_a0\<lparr>a_customPatientName := Some (trim ''New Guest'')\<rparr>)),
      db0\<lparr>appointments := [row_a0\<lparr>a_customPatientName := Some (trim ''New Guest'')\<rparr>]\<rparr>) \<and>
   req_field (Some req_empty_patientId) ''patientId'' = Some (JStr []) \<and>
   appointments_PATCH lib0 ''a0'' (Some req_empty_patientId) db0 =
     (json_response 400 (ErrorJson ''Unable to update appointment''), db0)"
proof -
  have f: "req_field (Some req_set_patientId) ''patientId'' = Some (JStr ''p1'')"
    "req_field (Some req_null_patientId) ''patientId'' = Some JNull"
    "req_field (Some req_null_patientId) ''patientName'' = Some (JStr ''New Guest'')"
    "req_field (Some req_empty_patientId) ''patientId'' = Some (JStr [])"
    by (simp_all add: req_field_def get_field_def req_set_patientId_def req_null_patientId_def
        req_empty_patientId_def)
  have t: "trim ''New Guest'' = ''New Guest''" by (simp add: trim_def is_space_def)
  from appointments_PATCH_guest_name [OF appointments_PATCH_set_patientId]
    appointments_PATCH_guest_name [OF appointments_PATCH_null_patientId]
    appointments_PATCH_guest_name [OF appointments_PATCH_empty]
    appointments_PATCH_set_patientId appointments_PATCH_null_patientId appointments_PATCH_empty f t
  show ?thesis by simp
qed

subsection \<open>The retry of the service routes without the optional columns\<close>

lemma starts_with_append: "starts_with (sub @ t) sub"
  by (induction sub) simp_all

lemma string_includes_append: "string_includes (pre @ sub @ post) sub"
proof (induction pre)
  case Nil
  show ?case by (cases "sub @ post") (use starts_with_append [of sub post] in auto)
next
  case (Cons c pre)
  then show ?case by simp
qed

lemma unknown_column_shortDescription:
  "unknown_column (PrismaClientValidationError (unknown_argument_message ''shortDescription''))"
  using string_includes_append [of "[]" "''Unknown argument `shortDescription`''" "''. Available options are marked with ?.''"]
  by (simp add: unknown_column_def unknown_argument_message_def)
















text \<open>
  A client that does not know \<open>shortDescription\<close> refuses the second attempt as well,
  since every call selects that column through \<open>baseIncludes\<close>: each of the three
  handlers then answers 400 and writes nothing. The earlier revision of \<open>POST\<close>, which
  retries on the \<open>shortDescription\<close> message only, therefore answers 400 whenever its
  first create fails.
\<close>

lemma service_create_unknown_shortDescription:
  assumes "\<not> knows_shortDescription C"
  shows "\<exists>e. service_create C newId d baseIncludes s = Inl e"
  using assms
  by (simp add: service_create_def client_refuses_def unknown_argument_def unknown_field_def
      selects_def baseIncludes_def)

lemma service_update_unknown_shortDescription:
  assumes "\<not> knows_shortDescription C"
  shows "\<exists>e. service_update C i d baseIncludes s = Inl e"
  using assms
  by (simp add: service_update_def client_refuses_def unknown_argument_def unknown_field_def
      selects_def baseIncludes_def)

lemma services_unknown_shortDescription:
  assumes "\<not> knows_shortDescription C"
  shows "services_POST L C newId req s =
           (json_response 400 (ErrorJson ''Unable to create service''), s)"
    and "services_POST_v1 L C newId req s =
           (json_response 400 (ErrorJson ''Unable to create service''), s)"
    and "status (fst (services_PATCH L C i req s)) = 400 \<and> snd (services_PATCH L C i req s) = s"
proof -
  show "services_POST L C newId req s =
           (json_response 400 (ErrorJson ''Unable to create service''), s)"
  proof (cases "bind (request_json req) (serviceSchema L)")
    case (Inl e)
    then show ?thesis by (simp add: services_POST_def bind_def)
  next
    case (Inr payload)
    from service_create_unknown_shortDescription [OF assms] obtain e1 e2 where
      "service_create C newId (service_data payload) baseIncludes s = Inl e1"
      "service_create C newId (service_fallback payload) baseIncludes s = Inl e2"
      by blast
    with Inr show ?thesis by (simp add: services_POST_def bind_def)
  qed
  show "services_POST_v1 L C newId req s =
           (json_response 400 (ErrorJson ''Unable to create service''), s)"
  proof (cases "bind (request_json req) (serviceSchema_v1 L)")
    case (Inl e)
    then show ?thesis by (simp add: services_POST_v1_def bind_def)
  next
    case (Inr payload)
    from service_create_unknown_shortDescription [OF assms] obtain e1 e2 where
      "service_create C newId (service_data_v1 payload) baseIncludes s = Inl e1"
      "service_create C newId ((service_data_v1 payload)\<lparr>sc_shortDescription := None\<rparr>)
         baseIncludes s = Inl e2"
      by blast
    with Inr show ?thesis by (simp add: services_POST_v1_def bind_def)
  qed
  show "status (fst (services_PATCH L C i req s)) = 400 \<and> snd (services_PATCH L C i req s) = s"
  proof (cases "bind (request_json req) (service_updateSchema L)")
    case (Inl e)
    then show ?thesis by (simp add: services_PATCH_def json_response_def)
  next
    case (Inr payload)
    from service_update_unknown_shortDescription [OF assms] obtain e1 e2 where
      "service_update C i (service_update_data payload) baseIncludes s = Inl e1"
      "service_update C i (service_update_rest payload) baseIncludes s = Inl e2"
      by blast
    with Inr show ?thesis by (simp add: services_PATCH_def json_response_def)
  qed
qed

lemma services_unknown_shortDescription_example:
  "services_POST lib0 client_old ''cservice02'' (Some req_service) db0 =
     (json_response 400 (ErrorJson ''Unable to create service''), db0) \<and>
   services_POST_v1 lib0 client_old ''cservice02'' (Some req_service) db0 =
     (json_response 400 (ErrorJson ''Unable to create service''), db0)"
  using services_unknown_shortDescription(1,2) [of client_old]
  by (simp add: client_old_def)

lemma services_POST_v1_first_failure:
  assumes "serviceSchema_v1 L j = Inr payload"
    and "service_create C newId (service_data_v1 payload) baseIncludes s = Inl e"
  shows "services_POST_v1 L C newId (Some j) s =
           (json_response 400 (ErrorJson ''Unable to create service''), s)"
proof (cases "knows_shortDescription C")
  case False
  then show ?thesis by (rule services_unknown_shortDescription(2))
next
  case True
  with assms(2) have "e = PrismaClientKnownRequestError ''P2002'' [''id''] \<or>
      e = PrismaClientKnownRequestError ''P2025'' []"
    by (auto simp: service_create_def client_refuses_def unknown_argument_def unknown_field_def
        selects_def baseIncludes_def service_data_v1_def Let_def split: if_splits)
  then have "\<not> string_includes (message e) ''Unknown argument `shortDescription`''"
    by auto
  with assms show ?thesis
    by (simp add: services_POST_v1_def bind_def request_json_def)
qed

subsection \<open>Reconciling the service usage of a patient\<close>

lemma set_js_Set [simp]: "set (js_Set xs) = set xs"
  by (simp add: js_Set_def)

lemma distinct_js_Set [simp]: "distinct (js_Set xs)"
  by (simp add: js_Set_def)

lemma insert_usages_fresh:
  assumes "distinct cs"
    and "\<And>sv u. sv \<in> set cs \<Longrightarrow> u \<in> set us \<Longrightarrow> \<not> (pu_patientId u = i \<and> pu_serviceId u = sv)"
  shows "insert_usages now (map (\<lambda>sv. (i, sv)) cs) us = us @ map (new_usage now i) cs"
  using assms
proof (induction cs arbitrary: us)
  case Nil
  then show ?case by simp
next
  case (Cons c cs)
  have no: "\<not> list_ex (\<lambda>u. pu_patientId u = i \<and> pu_serviceId u = c) us"
    using Cons.prems(2) [of c] by (auto simp: list_ex_iff)
  have "insert_usages now (map (\<lambda>sv. (i, sv)) cs) (us @ [new_usage now i c]) =
        (us @ [new_usage now i c]) @ map (new_usage now i) cs"
  proof (rule Cons.IH)
    show "distinct cs" using Cons.prems(1) by simp
    show "\<not> (pu_patientId u = i \<and> pu_serviceId u = sv)"
      if "sv \<in> set cs" "u \<in> set (us @ [new_usage now i c])" for sv u
    proof (cases "u \<in> set us")
      case True
      then show ?thesis using Cons.prems(2) [of sv u] that(1) by simp
    next
      case False
      with that(2) have "u = new_usage now i c" by simp
      moreover have "c \<noteq> sv" using Cons.prems(1) that(1) by auto
      ultimately show ?thesis by (simp add: new_usage_def)
    qed
  qed
  with no show ?case by (simp add: new_usage_def)
qed

lemma usage_createMany_Inr:
  assumes "usage_createMany now ds s = Inr s'"
  shows "s' = s\<lparr>usages := insert_usages now ds (usages s)\<rparr>"
  using assms by (simp add: usage_createMany_def split: if_splits)

lemma patient_update_Inr:
  assumes "patient_update i d s = Inr (row, s1)"
  shows "\<exists>old. find (\<lambda>x. p_id x = i) (patients s) = Some old \<and> row = patient_apply d old \<and>
           s1 = s\<lparr>patients := map (\<lambda>x. if p_id x = i then row else x) (patients s)\<rparr>"
  using assms
  by (auto simp: patient_update_def Let_def split: option.splits if_splits)

lemma patient_error_status:
  "(status (patient_error e) = 400 \<or> status (patient_error e) = 409) \<and>
   (\<exists>m. body (patient_error e) = ErrorJson m)"
  by (auto simp: patient_error_def handleKnownError_def json_response_def
      split: error.splits option.splits)

lemma collect_strings:
  "collect (map (z_string_min n) (map JStr S)) = Inr S' \<Longrightarrow> S' = S"
proof (induction S arbitrary: S')
  case Nil
  then show ?case by simp
next
  case (Cons a S)
  then show ?case
    by (cases "collect (map (z_string_min n) (map JStr S))") (auto split: if_splits)
qed

lemma patient_updateSchema_serviceIds:
  assumes "patient_updateSchema L j = Inr payload"
    and "req_field (Some j) ''serviceIds'' = Some (JArr (map JStr S))"
  shows "pup_serviceIds payload = Some S"
proof -
  from assms(1) obtain kvs where kvs: "j = JObj kvs"
    and p: "optional (z_array (z_string_min 1)) (get_field kvs ''serviceIds'') =
              Inr (pup_serviceIds payload)"
    by (cases j) (auto simp: patient_updateSchema_def bind_Inr_iff)
  from assms(2) kvs have "get_field kvs ''serviceIds'' = Some (JArr (map JStr S))"
    by (simp add: req_field_def)
  with p obtain S' where "collect (map (z_string_min 1) (map JStr S)) = Inr S'"
    "pup_serviceIds payload = Some S'"
    by (auto simp: optional_Inr_Some)
  with collect_strings [of 1 S S'] show ?thesis by simp
qed

lemma reconciled_ids:
  "pu_serviceId ` {u \<in> set (filter (\<lambda>u. pu_patientId u \<noteq> i \<or> pu_serviceId u \<in> set S) us @
           map (new_usage now i) (filter (\<lambda>x. x \<notin> pu_serviceId ` {u \<in> set us. pu_patientId u = i}) (js_Set S))).
        pu_patientId u = i} = set S"
  (is "?L = ?R")
proof
  show "?L \<subseteq> ?R"
  proof
    fix x assume "x \<in> ?L"
    then obtain u where u: "pu_patientId u = i" "pu_serviceId u = x"
      and mem: "u \<in> set (filter (\<lambda>u. pu_patientId u \<noteq> i \<or> pu_serviceId u \<in> set S) us) \<or>
        u \<in> new_usage now i ` set (filter (\<lambda>x. x \<notin> pu_serviceId ` {u \<in> set us. pu_patientId u = i}) (js_Set S))"
      by auto
    from mem show "x \<in> ?R"
    proof
      assume "u \<in> set (filter (\<lambda>u. pu_patientId u \<noteq> i \<or> pu_serviceId u \<in> set S) us)"
      with u show ?thesis by simp
    next
      assume "u \<in> new_usage now i ` set (filter (\<lambda>x. x \<notin> pu_serviceId ` {u \<in> set us. pu_patientId u = i}) (js_Set S))"
      then obtain y where "y \<in> set S" "u = new_usage now i y" by auto
      with u show ?thesis by (simp add: new_usage_def)
    qed
  qed
  show "?R \<subseteq> ?L"
  proof
    fix x assume x: "x \<in> set S"
    show "x \<in> ?L"
    proof (cases "x \<in> pu_serviceId ` {u \<in> set us. pu_patientId u = i}")
      case True
      then obtain u where "u \<in> set us" "pu_patientId u = i" "pu_serviceId u = x" by auto
      with x show ?thesis by force
    next
      case False
      with x have "new_usage now i x \<in> set (map (new_usage now i)
          (filter (\<lambda>x. x \<notin> pu_serviceId ` {u \<in> set us. pu_patientId u = i}) (js_Set S)))"
        by simp
      moreover have "pu_patientId (new_usage now i x) = i" "pu_serviceId (new_usage now i x) = x"
        by (simp_all add: new_usage_def)
      ultimately show ?thesis by force
    qed
  qed
qed

lemma reconciled_distinct:
  assumes "distinct (map usage_key us)"
  shows "distinct (map usage_key (filter (\<lambda>u. pu_patientId u \<noteq> i \<or> pu_serviceId u \<in> set S) us @
           map (new_usage now i) (filter (\<lambda>x. x \<notin> pu_serviceId ` {u \<in> set us. pu_patientId u = i}) (js_Set S))))"
proof -
  have k: "map usage_key (map (new_usage now i) cs) = map (Pair i) cs" for cs
    by (simp add: usage_key_def new_usage_def)
  have d1: "distinct (map usage_key (filter (\<lambda>u. pu_patientId u \<noteq> i \<or> pu_serviceId u \<in> set S) us))"
    using assms by (rule distinct_map_filter)
  have d2: "distinct (map (Pair i) (filter (\<lambda>x. x \<notin> pu_serviceId ` {u \<in> set us. pu_patientId u = i}) (js_Set S)))"
    by (simp add: distinct_map inj_on_def)
  have d3: "set (map usage_key (filter (\<lambda>u. pu_patientId u \<noteq> i \<or> pu_serviceId u \<in> set S) us)) \<inter>
        set (map (Pair i) (filter (\<lambda>x. x \<notin> pu_serviceId ` {u \<in> set us. pu_patientId u = i}) (js_Set S))) = {}"
    by (auto simp: usage_key_def)
  from d1 d2 d3 show ?thesis
    unfolding map_append k distinct_append by blast
qed

lemma and_then_Inr:
  "and_then m f w = (Inr y, w') \<longleftrightarrow> (\<exists>x w1. m w = (Inr x, w1) \<and> f x w1 = (Inr y, w'))"
  by (cases "m w") (auto simp: and_then_def split: sum.splits)

lemma execute_Tx_Inr:
  assumes "open_tx w = Some t"
  shows "execute Tx statement w = (Inr v, w') \<longleftrightarrow>
           (\<exists>t'. statement t = Inr (v, t') \<and> w' = w\<lparr>open_tx := Some t'\<rparr>)"
  using assms by (cases "statement t") (auto simp: execute_def)

lemma execute_Tx_committed: "committed (snd (execute Tx statement w)) = committed w"
  by (auto simp: execute_def split: option.splits sum.splits prod.splits)

lemma and_then_committed:
  assumes "\<And>w. committed (snd (m w)) = committed w"
    and "\<And>x w. committed (snd (f x w)) = committed w"
  shows "committed (snd (and_then m f w)) = committed w"
proof (cases "m w")
  case (Pair r w1)
  with assms(1) [of w] have c: "committed w1 = committed w" by simp
  show ?thesis
  proof (cases r)
    case (Inl e)
    with Pair c show ?thesis by (simp add: and_then_def)
  next
    case (Inr x)
    with Pair c assms(2) [of x w1] show ?thesis by (simp add: and_then_def)
  qed
qed

lemma skip_committed: "committed (snd (skip w)) = committed w"
  by (simp add: skip_def)

lemma reconcile_usages_committed:
  "committed (snd (reconcile_usages now i S Tx w)) = committed w"
  unfolding reconcile_usages_def Let_def
  by (intro and_then_committed execute_Tx_committed)
     (simp_all add: execute_Tx_committed skip_committed)

lemma patient_PUT_steps_committed:
  "committed (snd (patient_PUT_steps now i payload Tx w)) = committed w"
  unfolding patient_PUT_steps_def
  by (intro and_then_committed execute_Tx_committed)
     (simp_all add: execute_Tx_committed skip_committed reconcile_usages_committed
        split: option.split)

lemma reconcile_usages_Inr:
  assumes "reconcile_usages now i S Tx w = (Inr u, w')" and "open_tx w = Some tx"
  shows "w' = w\<lparr>open_tx := Some (tx\<lparr>usages :=
           filter (\<lambda>u. pu_patientId u \<noteq> i \<or> pu_serviceId u \<in> set S) (usages tx) @
           map (new_usage now i) (filter (\<lambda>x. x \<notin> usage_ids i tx) (js_Set S))\<rparr>)\<rparr>"
proof -
  define E where "E = js_Set (map pu_serviceId (usage_findMany i tx))"
  define toDelete where "toDelete = filter (\<lambda>x. x \<notin> set (js_Set S)) E"
  define toCreate where "toCreate = filter (\<lambda>x. x \<notin> set E) (js_Set S)"
  define tx1 where "tx1 = (if toDelete \<noteq> [] then usage_deleteMany i toDelete tx else tx)"
  have E: "set E = usage_ids i tx"
    by (auto simp: E_def usage_ids_def usage_findMany_def)
  have keep: "filter (\<lambda>u. \<not> (pu_patientId u = i \<and> pu_serviceId u \<in> set toDelete)) (usages tx) =
        filter (\<lambda>u. pu_patientId u \<noteq> i \<or> pu_serviceId u \<in> set S) (usages tx)"
    by (rule filter_cong) (auto simp: toDelete_def E usage_ids_def)
  have tx1: "tx1 = tx\<lparr>usages := filter (\<lambda>u. pu_patientId u \<noteq> i \<or> pu_serviceId u \<in> set S) (usages tx)\<rparr>"
  proof (cases "toDelete = []")
    case False
    then show ?thesis unfolding tx1_def usage_deleteMany_def keep by simp
  next
    case True
    then have "filter (\<lambda>u. \<not> (pu_patientId u = i \<and> pu_serviceId u \<in> set toDelete)) (usages tx) = usages tx"
      by simp
    with keep True show ?thesis by (simp add: tx1_def)
  qed
  have create: "toCreate = filter (\<lambda>x. x \<notin> usage_ids i tx) (js_Set S)"
    by (simp add: toCreate_def E)
  have q: "execute Tx (query (usage_findMany i)) w = (Inr (usage_findMany i tx), w)"
    using assms(2) by (simp add: execute_def query_def)
  from assms(1) have rest: "and_then
            (if toDelete \<noteq> [] then execute Tx (command (usage_deleteMany i toDelete)) else skip)
            (\<lambda>deleted.
               if toCreate \<noteq> []
               then execute Tx (command_or_throw
                      (usage_createMany now (map (\<lambda>serviceId. (i, serviceId)) toCreate)))
               else skip) w = (Inr u, w')"
    unfolding reconcile_usages_def Let_def E_def toDelete_def toCreate_def
    by (simp add: and_then_def q)
  have del: "(if toDelete \<noteq> [] then execute Tx (command (usage_deleteMany i toDelete)) else skip) w =
      (Inr (), w\<lparr>open_tx := Some tx1\<rparr>)"
    using assms(2) by (simp add: execute_def command_def skip_def tx1_def)
  from rest del have r: "(if toCreate \<noteq> []
               then execute Tx (command_or_throw
                      (usage_createMany now (map (\<lambda>serviceId. (i, serviceId)) toCreate)))
               else skip) (w\<lparr>open_tx := Some tx1\<rparr>) = (Inr u, w')"
    by (simp add: and_then_def)
  show ?thesis
  proof (cases "toCreate = []")
    case True
    with r have "w' = w\<lparr>open_tx := Some tx1\<rparr>" by (simp add: skip_def)
    with True tx1 create show ?thesis by simp
  next
    case False
    with r have "execute Tx (command_or_throw
        (usage_createMany now (map (\<lambda>serviceId. (i, serviceId)) toCreate)))
        (w\<lparr>open_tx := Some tx1\<rparr>) = (Inr u, w')" by simp
    then obtain tx2 where c: "usage_createMany now (map (\<lambda>serviceId. (i, serviceId)) toCreate) tx1 = Inr tx2"
      and w': "w' = w\<lparr>open_tx := Some tx2\<rparr>"
      by (auto simp: execute_def command_or_throw_def split: sum.splits)
    from usage_createMany_Inr [OF c]
    have "tx2 = tx1\<lparr>usages := insert_usages now (map (\<lambda>serviceId. (i, serviceId)) toCreate) (usages tx1)\<rparr>" .
    moreover have "insert_usages now (map (\<lambda>sv. (i, sv)) toCreate) (usages tx1) =
        usages tx1 @ map (new_usage now i) toCreate"
    proof (rule insert_usages_fresh)
      show "distinct toCreate" by (simp add: toCreate_def)
      show "\<not> (pu_patientId u = i \<and> pu_serviceId u = sv)"
        if "sv \<in> set toCreate" "u \<in> set (usages tx1)" for sv u
        using that by (auto simp: create tx1 usage_ids_def)
    qed
    ultimately show ?thesis using tx1 create w' by simp
  qed
qed

lemma patient_PUT_steps_Inr:
  assumes "patient_PUT_steps now i payload Tx w = (Inr found, w')" and "open_tx w = Some t"
  shows "\<exists>d row t1 t2. patient_update i d t = Inr (row, t1) \<and>
           (case pup_serviceIds payload of
              None \<Rightarrow> t2 = t1
            | Some S \<Rightarrow> t2 = t1\<lparr>usages :=
                filter (\<lambda>u. pu_patientId u \<noteq> i \<or> pu_serviceId u \<in> set S) (usages t1) @
                map (new_usage now i) (filter (\<lambda>x. x \<notin> usage_ids i t1) (js_Set S))\<rparr>) \<and>
           w' = w\<lparr>open_tx := Some t2\<rparr>"
proof -
  define d where "d = \<lparr>pui_firstName = pup_firstName payload, pui_lastName = pup_lastName payload,
                  pui_phone = pup_phone payload, pui_email = pup_email payload,
                  pui_dob = pup_dob payload, pui_notes = pup_notes payload\<rparr>"
  from assms(1) obtain row w1 u w2 where
    a: "execute Tx (patient_update i d) w = (Inr row, w1)"
    and b: "(case pup_serviceIds payload of
                 None \<Rightarrow> skip
               | Some serviceIds \<Rightarrow> reconcile_usages now i serviceIds Tx) w1 = (Inr u, w2)"
    and c: "execute Tx (query_or_throw (patient_findUniqueOrThrow i)) w2 = (Inr found, w')"
    unfolding patient_PUT_steps_def d_def and_then_Inr by blast
  from a assms(2) obtain t1 where t1: "patient_update i d t = Inr (row, t1)"
    and w1: "w1 = w\<lparr>open_tx := Some t1\<rparr>"
    by (auto simp: execute_Tx_Inr)
  have o1: "open_tx w1 = Some t1" by (simp add: w1)
  obtain t2 where t2: "(case pup_serviceIds payload of
              None \<Rightarrow> t2 = t1
            | Some S \<Rightarrow> t2 = t1\<lparr>usages :=
                filter (\<lambda>u. pu_patientId u \<noteq> i \<or> pu_serviceId u \<in> set S) (usages t1) @
                map (new_usage now i) (filter (\<lambda>x. x \<notin> usage_ids i t1) (js_Set S))\<rparr>)"
    and w2: "w2 = w\<lparr>open_tx := Some t2\<rparr>"
  proof (cases "pup_serviceIds payload")
    case None
    with b have "w2 = w1" by (simp add: skip_def)
    with None w1 that [of t1] show ?thesis by simp
  next
    case (Some S)
    with b have "reconcile_usages now i S Tx w1 = (Inr u, w2)" by simp
    from reconcile_usages_Inr [OF this o1] Some w1 that show ?thesis by simp
  qed
  have "open_tx w2 = Some t2" by (simp add: w2)
  with c have "w' = w2"
    by (auto simp: execute_Tx_Inr query_or_throw_def split: sum.splits)
  with t1 t2 w2 show ?thesis by blast
qed

lemma patients_PUT_cases:
  assumes "patients_PUT L now i req s = (r, s')"
  shows "(\<exists>e. r = patient_error e \<and> s' = s) \<or>
         (\<exists>j payload found w. req = Some j \<and> patient_updateSchema L j = Inr payload \<and>
            patient_PUT_steps now i payload Tx \<lparr>committed = s, open_tx = Some s\<rparr> = (Inr found, w) \<and>
            open_tx w = Some s' \<and>
            r = json_response 200 (Json found))"
proof (cases "bind (request_json req) (patient_updateSchema L)")
  case (Inl e)
  with assms show ?thesis by (auto simp: patients_PUT_def)
next
  case (Inr payload)
  then obtain j where j: "req = Some j" "patient_updateSchema L j = Inr payload"
    by (auto simp: bind_Inr_iff request_json_def split: option.splits)
  define w0 where "w0 = \<lparr>committed = s, open_tx = Some s\<rparr>"
  obtain res w where run: "patient_PUT_steps now i payload Tx w0 = (res, w)"
    by (cases "patient_PUT_steps now i payload Tx w0")
  have c: "committed w = s"
    using patient_PUT_steps_committed [of now i payload w0] run by (simp add: w0_def)
  show ?thesis
  proof (cases res)
    case (Inl e)
    with run Inr assms c have "r = patient_error e" "s' = s"
      by (simp_all add: patients_PUT_def transaction_def w0_def)
    then show ?thesis by blast
  next
    case inr: (Inr found)
    from patient_PUT_steps_Inr [of now i payload w0 found w s] run inr
    obtain t2 where w: "w = w0\<lparr>open_tx := Some t2\<rparr>" by (auto simp: w0_def)
    with run inr Inr assms have r: "r = json_response 200 (Json found)" and s': "s' = t2"
      by (simp_all add: patients_PUT_def transaction_def w0_def)
    have 1: "patient_PUT_steps now i payload Tx \<lparr>committed = s, open_tx = Some s\<rparr> = (Inr found, w)"
      using run inr by (simp add: w0_def)
    have 2: "open_tx w = Some s'" using w s' by simp
    from 1 2 j r show ?thesis by blast
  qed
qed

lemmas patients_PUT_defs =
  patients_PUT_def patient_updateSchema_def patient_PUT_steps_def transaction_def
  execute_def and_then_def skip_def query_def query_or_throw_def command_def
  command_or_throw_def
  patient_update_def patient_apply_def taken_def set_nullable_def set_value_def
  reconcile_usages_def usage_findMany_def usage_deleteMany_def usage_createMany_def
  js_Set_def patient_findUniqueOrThrow_def patient_error_def handleKnownError_def

lemma patients_PUT_example:
  "patients_PUT lib0 1000 ''p1'' (Some req_put) db0 =
     (json_response 200 (Json found_after), db0\<lparr>usages := usages_after\<rparr>)"
  by (simp add: patients_PUT_defs validation_defs req_put_def db0_def lib0_def
      found_after_def usages_after_def patient_p1_def)

text \<open>
  C2. After a successful \<open>PUT /api/patients/[id]\<close> whose \<open>serviceIds\<close> is the list
  \<open>S\<close>, the usage rows are: the rows of before except those of this patient whose
  service id is not in \<open>S\<close>, each of them untouched (with its \<open>usedAt\<close>), followed by
  one new row for each id of \<open>S\<close> the patient had no row for. Hence the set of service
  ids of the patient's rows is the set of ids in \<open>S\<close>, and rows that were unique per
  (patient, service) still are.
\<close>

theorem patients_PUT_reconciles_usages:
  assumes "req_field req ''serviceIds'' = Some (JArr (map JStr S))"
    and "patients_PUT L now i req s = (r, s')" and "status r = 200"
  shows "usages s' =
           filter (\<lambda>u. pu_patientId u \<noteq> i \<or> pu_serviceId u \<in> set S) (usages s) @
           map (new_usage now i) (filter (\<lambda>x. x \<notin> usage_ids i s) (js_Set S)) \<and>
         usage_ids i s' = set S \<and>
         (distinct (map usage_key (usages s)) \<longrightarrow> distinct (map usage_key (usages s')))"
proof -
  have "r \<noteq> patient_error e" for e
    using patient_error_status [of e] assms(3) by auto
  with patients_PUT_cases [OF assms(2)]
  obtain j payload found w where j: "req = Some j" "patient_updateSchema L j = Inr payload"
    "patient_PUT_steps now i payload Tx \<lparr>committed = s, open_tx = Some s\<rparr> = (Inr found, w)"
    "open_tx w = Some s'"
    by blast
  from patient_updateSchema_serviceIds [OF j(2)] assms(1) j(1)
  have S: "pup_serviceIds payload = Some S" by simp
  from patient_PUT_steps_Inr [OF j(3)] S j(4) obtain row tx1 d where
    u: "patient_update i d s = Inr (row, tx1)"
    and rc: "s' = tx1\<lparr>usages :=
                filter (\<lambda>u. pu_patientId u \<noteq> i \<or> pu_serviceId u \<in> set S) (usages tx1) @
                map (new_usage now i) (filter (\<lambda>x. x \<notin> usage_ids i tx1) (js_Set S))\<rparr>"
    by auto
  from patient_update_Inr [OF u] have tx1: "usages tx1 = usages s" by auto
  then have ids: "usage_ids i tx1 = usage_ids i s" by (simp add: usage_ids_def)
  from rc tx1 ids
  have eq: "usages s' =
           filter (\<lambda>u. pu_patientId u \<noteq> i \<or> pu_serviceId u \<in> set S) (usages s) @
           map (new_usage now i) (filter (\<lambda>x. x \<notin> usage_ids i s) (js_Set S))"
    by simp
  have "usage_ids i s' = set S"
    unfolding usage_ids_def [of i s'] eq usage_ids_def [of i s] by (rule reconciled_ids)
  moreover have "distinct (map usage_key (usages s'))" if "distinct (map usage_key (usages s))"
    unfolding eq usage_ids_def using that by (rule reconciled_distinct)
  ultimately show ?thesis using eq by blast
qed

theorem patients_PUT_reconciles_usages_witness:
  "req_field (Some req_put) ''serviceIds'' = Some (JArr (map JStr [''svc2'', ''svc3''])) \<and>
   patients_PUT lib0 1000 ''p1'' (Some req_put) db0 =
     (json_response 200 (Json found_after), db0\<lparr>usages := usages_after\<rparr>) \<and>
   usages db0 =
     [\<lparr>pu_patientId = ''p1'', pu_serviceId = ''svc1'', pu_usedAt = 100\<rparr>,
      \<lparr>pu_patientId = ''p1'', pu_serviceId = ''svc2'', pu_usedAt = 200\<rparr>,
      \<lparr>pu_patientId = ''p2'', pu_serviceId = ''svc1'', pu_usedAt = 300\<rparr>] \<and>
   usages_after =
     [\<lparr>pu_patientId = ''p1'', pu_serviceId = ''svc2'', pu_usedAt = 200\<rparr>,
      \<lparr>pu_patientId = ''p2'', pu_serviceId = ''svc1'', pu_usedAt = 300\<rparr>,
      \<lparr>pu_patientId = ''p1'', pu_serviceId = ''svc3'', pu_usedAt = 1000\<rparr>] \<and>
   usage_ids ''p1'' (db0\<lparr>usages := usages_after\<rparr>) = set [''svc2'', ''svc3''] \<and>
   distinct (map usage_key usages_after)"
proof -
  have f: "req_field (Some req_put) ''serviceIds'' = Some (JArr (map JStr [''svc2'', ''svc3'']))"
    by (simp add: req_field_def get_field_def req_put_def)
  have st: "status (json_response 200 (Json found_after)) = 200"
    by (simp add: json_response_def)
  have d: "distinct (map usage_key (usages db0))"
    by (simp add: db0_def usage_key_def)
  have u: "usages db0 =
     [\<lparr>pu_patientId = ''p1'', pu_serviceId = ''svc1'', pu_usedAt = 100\<rparr>,
      \<lparr>pu_patientId = ''p1'', pu_serviceId = ''svc2'', pu_usedAt = 200\<rparr>,
      \<lparr>pu_patientId = ''p2'', pu_serviceId = ''svc1'', pu_usedAt = 300\<rparr>]"
    by (simp add: db0_def)
  from patients_PUT_reconciles_usages [OF f patients_PUT_example st] d
  have "usage_ids ''p1'' (db0\<lparr>usages := usages_after\<rparr>) = set [''svc2'', ''svc3'']"
    "distinct (map usage_key usages_after)"
    by simp_all
  with f patients_PUT_example u show ?thesis by (simp add: usages_after_def)
qed

subsection \<open>Atomicity of the patient update\<close>

lemma patient_PUT_steps_failed:
  assumes "patient_updateSchema L j = Inr payload"
    and "patient_PUT_steps now i payload Tx \<lparr>committed = s, open_tx = Some s\<rparr> = (Inl e, w)"
  shows "patients_PUT L now i (Some j) s = (patient_error e, s)"
proof -
  have "committed w = s"
    using patient_PUT_steps_committed [of now i payload "\<lparr>committed = s, open_tx = Some s\<rparr>"] assms(2)
    by simp
  with assms show ?thesis
    by (simp add: patients_PUT_def transaction_def bind_def request_json_def)
qed

lemma patient_updateSchema_missing:
  "patient_updateSchema lib0 req_put_missing = Inr payload_put_missing"
  by (simp add: patient_updateSchema_def validation_defs req_put_missing_def
      payload_put_missing_def lib0_def)

lemma patient_PUT_steps_missing_Tx:
  "patient_PUT_steps 1000 ''p1'' payload_put_missing Tx \<lparr>committed = db0, open_tx = Some db0\<rparr> =
     (Inl error_missing_service, \<lparr>committed = db0, open_tx = Some db_mid\<rparr>)"
  by (simp add: patients_PUT_defs payload_put_missing_def db0_def db_janet_def db_mid_def
      patient_p1_def error_missing_service_def Let_def)

lemma patient_PUT_steps_missing_Prisma:
  "patient_PUT_steps 1000 ''p1'' payload_put_missing Prisma \<lparr>committed = db0, open_tx = None\<rparr> =
     (Inl error_missing_service, \<lparr>committed = db_mid, open_tx = None\<rparr>)"
  by (simp add: patients_PUT_defs payload_put_missing_def db0_def db_janet_def db_mid_def
      patient_p1_def error_missing_service_def Let_def)

text \<open>
  C3. A \<open>PUT /api/patients/[id]\<close> that does not answer 200 answers 400 or 409 with an
  error body and leaves the whole database, so the patient record and the usage rows,
  as it was. In particular, when a statement of the callback throws after earlier
  statements have written inside the transaction, those writes are in the rows of the
  transaction only: the committed rows are the ones of before the request, and the
  answer is the error. The witness is a request whose patient update and whose delete
  of a usage row succeed inside the transaction and whose \<open>createMany\<close> then fails on a
  service id that does not exist; the same statements issued on \<open>prisma\<close>, outside a
  transaction, leave the renamed patient and the deleted row behind.
\<close>

theorem patients_PUT_atomic:
  "(patients_PUT L now i req s = (r, s') \<and> status r \<noteq> 200 \<longrightarrow>
      s' = s \<and> (status r = 400 \<or> status r = 409) \<and> (\<exists>m. body r = ErrorJson m)) \<and>
   (patient_updateSchema L j = Inr payload \<and>
    patient_PUT_steps now i payload Tx \<lparr>committed = s, open_tx = Some s\<rparr> = (Inl e, w) \<longrightarrow>
      committed w = s \<and> patients_PUT L now i (Some j) s = (patient_error e, s))"
proof -
  have A: "s' = s \<and> (status r = 400 \<or> status r = 409) \<and> (\<exists>m. body r = ErrorJson m)"
    if a: "patients_PUT L now i req s = (r, s')" "status r \<noteq> 200"
  proof -
    from patients_PUT_cases [OF a(1)] a(2) obtain e where "r = patient_error e" "s' = s"
      by (auto simp: json_response_def)
    with patient_error_status [of e] show ?thesis by simp
  qed
  have B: "committed w = s \<and> patients_PUT L now i (Some j) s = (patient_error e, s)"
    if b: "patient_updateSchema L j = Inr payload"
      "patient_PUT_steps now i payload Tx \<lparr>committed = s, open_tx = Some s\<rparr> = (Inl e, w)"
    using patient_PUT_steps_failed [OF b]
      patient_PUT_steps_committed [of now i payload "\<lparr>committed = s, open_tx = Some s\<rparr>"] b(2)
    by simp
  from A B show ?thesis by blast
qed

theorem patients_PUT_atomic_witness:
  "patient_updateSchema lib0 req_put_missing = Inr payload_put_missing \<and>
   patient_PUT_steps 1000 ''p1'' payload_put_missing Tx \<lparr>committed = db0, open_tx = Some db0\<rparr> =
     (Inl error_missing_service, \<lparr>committed = db0, open_tx = Some db_mid\<rparr>) \<and>
   patients_PUT lib0 1000 ''p1'' (Some req_put_missing) db0 =
     (json_response 400 (ErrorJson ''Unable to update patient''), db0) \<and>
   patient_PUT_steps 1000 ''p1'' payload_put_missing Prisma \<lparr>committed = db0, open_tx = None\<rparr> =
     (Inl error_missing_service, \<lparr>committed = db_mid, open_tx = None\<rparr>) \<and>
   map p_firstName (patients db0) = [''Jane'', ''John''] \<and>
   map p_firstName (patients db_mid) = [''Janet'', ''John''] \<and>
   map pu_serviceId (usage_findMany ''p1'' db0) = [''svc1'', ''svc2''] \<and>
   map pu_serviceId (usage_findMany ''p1'' db_mid) = [''svc2'']"
proof -
  have e: "patient_error error_missing_service =
      json_response 400 (ErrorJson ''Unable to update patient'')"
    by (simp add: patient_error_def handleKnownError_def error_missing_service_def)
  have n: "map p_firstName (patients db0) = [''Jane'', ''John'']"
    "map p_firstName (patients db_mid) = [''Janet'', ''John'']"
    "map pu_serviceId (usage_findMany ''p1'' db0) = [''svc1'', ''svc2'']"
    "map pu_serviceId (usage_findMany ''p1'' db_mid) = [''svc2'']"
    by (simp_all add: db0_def db_mid_def db_janet_def patient_p1_def usage_findMany_def)
  from patients_PUT_atomic [where L = lib0 and now = 1000 and i = "''p1''" and s = db0
      and j = req_put_missing and payload = payload_put_missing
      and e = error_missing_service and w = "\<lparr>committed = db0, open_tx = Some db_mid\<rparr>"
      and req = "Some req_put_missing"
      and r = "json_response 400 (ErrorJson ''Unable to update patient'')" and s' = db0]
    patient_updateSchema_missing patient_PUT_steps_missing_Tx e
  have "patients_PUT lib0 1000 ''p1'' (Some req_put_missing) db0 =
     (json_response 400 (ErrorJson ''Unable to update patient''), db0)"
    by simp
  with patient_updateSchema_missing patient_PUT_steps_missing_Tx
    patient_PUT_steps_missing_Prisma n
  show ?thesis by simp
qed

end
